theory Spec2Isabelle
  imports Complex_Main "HOL-Library.AList" "HOL-Library.Sublist"
begin

section \<open>Python values, exceptions and the device interface\<close>

text \<open>
  Payloads, job-info dictionaries and status codes are dynamically typed JSON-like
  values. A dictionary is an association list in insertion order with string keys.
  Floats do not occur in the modelled paths and are left out.
\<close>

datatype pyval =
    PNone
  | PBool bool
  | PInt int
  | PStr string
  | PList "pyval list"
  | PDict "(string \<times> pyval) list"

text \<open>An exception is its class name and its message.\<close>

datatype exn = Exn (exn_class: string) (exn_msg: string)

text \<open>Python truthiness (\<open>if v:\<close>, \<open>not v\<close>, \<open>assert v\<close>).\<close>

fun truthy :: "pyval \<Rightarrow> bool" where
  "truthy PNone = False"
| "truthy (PBool b) = b"
| "truthy (PInt i) = (i \<noteq> 0)"
| "truthy (PStr s) = (s \<noteq> [])"
| "truthy (PList xs) = (xs \<noteq> [])"
| "truthy (PDict d) = (d \<noteq> [])"

text \<open>\<open>needle in haystack\<close> on two strings: contiguous substring.\<close>

fun py_substring :: "string \<Rightarrow> string \<Rightarrow> bool" where
  "py_substring xs [] = (xs = [])"
| "py_substring xs (y # ys) = (prefix xs (y # ys) \<or> py_substring xs ys)"

text \<open>\<open>key in v\<close> for a string key.\<close>

fun py_contains :: "string \<Rightarrow> pyval \<Rightarrow> exn + bool" where
  "py_contains k (PDict d) = Inr (k \<in> fst ` set d)"
| "py_contains k (PStr s) = Inr (py_substring k s)"
| "py_contains k (PList xs) = Inr (PStr k \<in> set xs)"
| "py_contains k _ = Inl (Exn ''TypeError'' ''argument is not iterable'')"

text \<open>\<open>v[key]\<close> for a string key.\<close>

fun py_getitem :: "pyval \<Rightarrow> string \<Rightarrow> exn + pyval" where
  "py_getitem (PDict d) k =
     (case map_of d k of None \<Rightarrow> Inl (Exn ''KeyError'' k) | Some v \<Rightarrow> Inr v)"
| "py_getitem (PStr s) k = Inl (Exn ''TypeError'' ''string indices must be integers'')"
| "py_getitem (PList xs) k = Inl (Exn ''TypeError'' ''list indices must be integers or slices'')"
| "py_getitem _ k = Inl (Exn ''TypeError'' ''object is not subscriptable'')"

text \<open>\<open>v[key] = x\<close> for a string key: an existing key keeps its place, a new one is appended.\<close>

fun py_setitem :: "pyval \<Rightarrow> string \<Rightarrow> pyval \<Rightarrow> exn + pyval" where
  "py_setitem (PDict d) k x = Inr (PDict (AList.update k x d))"
| "py_setitem (PList xs) k x = Inl (Exn ''TypeError'' ''list indices must be integers or slices'')"
| "py_setitem _ k x = Inl (Exn ''TypeError'' ''object does not support item assignment'')"

text \<open>\<open>v.get(key, default)\<close>.\<close>

fun py_get :: "pyval \<Rightarrow> string \<Rightarrow> pyval \<Rightarrow> exn + pyval" where
  "py_get (PDict d) k dflt = Inr (case map_of d k of None \<Rightarrow> dflt | Some v \<Rightarrow> v)"
| "py_get _ k dflt = Inl (Exn ''AttributeError'' ''object has no attribute get'')"

text \<open>\<open>str(n)\<close> for an integer.\<close>

fun str_nat :: "nat \<Rightarrow> string" where
  "str_nat n =
     (if n < 10 then [''0123456789'' ! n]
      else str_nat (n div 10) @ [''0123456789'' ! (n mod 10)])"

definition str_int :: "int \<Rightarrow> string" where
  "str_int i = (if i < 0 then CHR ''-'' # str_nat (nat (- i)) else str_nat (nat i))"

text \<open>
  Every call the orchestrator makes on a collaborator (job manager, job ticket store,
  underware, CDM, the clock, the logger), with its arguments. \<open>Log_info\<close> carries the
  message template and the values formatted into it. The optional last argument of
  \<open>JM_change_job_state\<close> is the \<open>header\<close> argument: \<open>None\<close> when the call passes three
  arguments, \<open>Some v\<close> when it passes \<open>v\<close> as the fourth.
\<close>

datatype call =
    Log_info string "pyval list"
  | Time_time
  | Time_sleep real
  | JM_change_job_state string string string "pyval option"
  | JM_get_job_info string pyval
  | JM_wait_for_job_state string "string list"
  | JM_wait_for_all_previews_done string
  | JM_wait_for_job_processing_sub_status string
  | JM_wait_for_alerts string
  | JM_alert_action string string
  | JT_create pyval
  | JT_update pyval pyval
  | JT_get_info string
  | UDW_isMediaLoaded string
  | CDM_get string

text \<open>
  The device and the services around the orchestrator. They are deterministic but
  arbitrary: the answer to a call may depend on every call made before it.
  \<open>respond w h c\<close> is what call \<open>c\<close> returns or raises after the history \<open>h\<close>;
  \<open>clock w h\<close> is what \<open>time.time()\<close> reads after \<open>h\<close>.
\<close>

record world =
  respond :: "call list \<Rightarrow> call \<Rightarrow> exn + pyval"
  clock :: "call list \<Rightarrow> real"
  WAIT_START_JOB_TIMEOUT :: int

text \<open>
  The orchestrator instance: the calls made so far, and the three flags that
  \<open>Copy.__init__\<close> sets to \<open>None\<close>.
\<close>

record copy_state =
  trace :: "call list"
  adf_loaded :: "bool option"
  output_duplex :: "bool option"
  duplex :: "bool option"

definition Copy_init :: copy_state where
  "Copy_init = \<lparr>trace = [], adf_loaded = None, output_duplex = None, duplex = None\<rparr>"

section \<open>Statements with effects and exceptions\<close>

text \<open>
  A statement runs in a state and either does not return (\<open>None\<close>: the polling loop may
  spin forever) or yields the exception raised or the value returned, with the new state.
\<close>

type_synonym 'a action = "copy_state \<Rightarrow> ((exn + 'a) \<times> copy_state) option"

definition returnA :: "'a \<Rightarrow> 'a action" where
  "returnA x s = Some (Inr x, s)"

definition raiseA :: "exn \<Rightarrow> 'a action" where
  "raiseA e s = Some (Inl e, s)"

definition liftA :: "exn + 'a \<Rightarrow> 'a action" where
  "liftA r s = Some (r, s)"

definition bindA :: "'a action \<Rightarrow> ('a \<Rightarrow> 'b action) \<Rightarrow> 'b action" where
  "bindA m f s =
     (case m s of
        None \<Rightarrow> None
      | Some (Inl e, s') \<Rightarrow> Some (Inl e, s')
      | Some (Inr x, s') \<Rightarrow> f x s')"

definition thenA :: "'a action \<Rightarrow> 'b action \<Rightarrow> 'b action" where
  "thenA m n = bindA m (\<lambda>_. n)"

definition invoke :: "world \<Rightarrow> call \<Rightarrow> pyval action" where
  "invoke w c s = Some (respond w (trace s) c, s\<lparr>trace := trace s @ [c]\<rparr>)"

definition logging_info :: "string \<Rightarrow> pyval list \<Rightarrow> unit action" where
  "logging_info msg args s = Some (Inr (), s\<lparr>trace := trace s @ [Log_info msg args]\<rparr>)"

definition time_time :: "world \<Rightarrow> real action" where
  "time_time w s = Some (Inr (clock w (trace s)), s\<lparr>trace := trace s @ [Time_time]\<rparr>)"

definition time_sleep :: "real \<Rightarrow> unit action" where
  "time_sleep d s = Some (Inr (), s\<lparr>trace := trace s @ [Time_sleep d]\<rparr>)"

definition py_assert :: "bool \<Rightarrow> string \<Rightarrow> unit action" where
  "py_assert b msg = (if b then returnA () else raiseA (Exn ''AssertionError'' msg))"

text \<open>\<open>try: m except TimeoutError: h\<close>.\<close>

definition try_except_TimeoutError :: "'a action \<Rightarrow> 'a action \<Rightarrow> 'a action" where
  "try_except_TimeoutError m h s =
     (case m s of
        None \<Rightarrow> None
      | Some (Inl e, s') \<Rightarrow>
          if exn_class e = ''TimeoutError'' then h s' else Some (Inl e, s')
      | Some (Inr x, s') \<Rightarrow> Some (Inr x, s'))"

text \<open>\<open>try: m except: h\<close> (a bare except catches everything).\<close>

definition try_except_all :: "'a action \<Rightarrow> 'a action \<Rightarrow> 'a action" where
  "try_except_all m h s =
     (case m s of
        None \<Rightarrow> None
      | Some (Inl e, s') \<Rightarrow> h s'
      | Some (Inr x, s') \<Rightarrow> Some (Inr x, s'))"

section \<open>copy.py: class Copy\<close>

definition Copy_get_job_info :: "world \<Rightarrow> string \<Rightarrow> pyval action" where
  "Copy_get_job_info w jobid = invoke w (JM_get_job_info jobid PNone)"

definition Copy_change_job_state :: "world \<Rightarrow> string \<Rightarrow> string \<Rightarrow> string \<Rightarrow> pyval action" where
  "Copy_change_job_state w jobID action jobState =
     invoke w (JM_change_job_state jobID action jobState (Some PNone))"

text \<open>
  The \<open>while\<close> loop of \<open>Copy.preview_start\<close>; it returns \<open>job_ready\<close>. Nothing bounds the
  number of iterations unless the clock advances, so the loop is a partial function.
\<close>

partial_function (option) Copy_preview_start_loop ::
  "world \<Rightarrow> string \<Rightarrow> real \<Rightarrow> copy_state \<Rightarrow> ((exn + bool) \<times> copy_state) option" where
  "Copy_preview_start_loop w job_id start_time s =
     (if clock w (trace s) - start_time < real_of_int (WAIT_START_JOB_TIMEOUT w) then
        (case respond w (trace s @ [Time_time]) (JM_get_job_info job_id PNone) of
           Inl e \<Rightarrow> Some (Inl e, s\<lparr>trace := trace s @ [Time_time, JM_get_job_info job_id PNone]\<rparr>)
         | Inr job_info \<Rightarrow>
             (case py_get job_info ''state'' PNone of
                Inl e \<Rightarrow>
                  Some (Inl e, s\<lparr>trace := trace s @ [Time_time, JM_get_job_info job_id PNone]\<rparr>)
              | Inr st \<Rightarrow>
                  if st = PStr ''ready''
                  then Some (Inr True,
                             s\<lparr>trace := trace s @ [Time_time, JM_get_job_info job_id PNone]\<rparr>)
                  else Copy_preview_start_loop w job_id start_time
                         (s\<lparr>trace := trace s @
                              [Time_time, JM_get_job_info job_id PNone, Time_sleep 2]\<rparr>)))
      else Some (Inr False, s\<lparr>trace := trace s @ [Time_time]\<rparr>))"

definition Copy_preview_start :: "world \<Rightarrow> string \<Rightarrow> string \<Rightarrow> unit action" where
  "Copy_preview_start w job_id ticket_id =
     thenA (logging_info ''Starting job : %s'' [PStr job_id])
    (bindA (invoke w (JM_change_job_state job_id ''Initialize'' ''initializeProcessing'' None))
       (\<lambda>initialize_pending_state.
     thenA (py_assert (initialize_pending_state = PInt 200) '''')
    (bindA (time_time w) (\<lambda>start_time.
     bindA (Copy_preview_start_loop w job_id start_time) (\<lambda>job_ready.
       if \<not> job_ready
       then raiseA (Exn ''TimeoutError''
              (''Job has not reached the ready state after '' @
               str_int (WAIT_START_JOB_TIMEOUT w) @ '' seconds''))
       else returnA ())))))"

text \<open>
  \<open>v[k1][k2]...\<close>, and the assignment \<open>v[k1]...[kn] = x\<close>. Python mutates the innermost
  dictionary in place; here the enclosing dictionaries are rebuilt around it.
\<close>

fun py_path :: "pyval \<Rightarrow> string list \<Rightarrow> exn + pyval" where
  "py_path v [] = Inr v"
| "py_path v (k # ks) = (case py_getitem v k of Inl e \<Rightarrow> Inl e | Inr u \<Rightarrow> py_path u ks)"

fun py_setpath :: "pyval \<Rightarrow> string list \<Rightarrow> pyval \<Rightarrow> exn + pyval" where
  "py_setpath v [] x = Inr x"
| "py_setpath v [k] x = py_setitem v k x"
| "py_setpath v (k # ks) x =
     (case py_getitem v k of
        Inl e \<Rightarrow> Inl e
      | Inr u \<Rightarrow> (case py_setpath u ks x of Inl e \<Rightarrow> Inl e | Inr u' \<Rightarrow> py_setitem v k u'))"

text \<open>\<open>key in v[k1][k2]...\<close>.\<close>

definition py_contains_at :: "string \<Rightarrow> pyval \<Rightarrow> string list \<Rightarrow> exn + bool" where
  "py_contains_at k v ks = (case py_path v ks of Inl e \<Rightarrow> Inl e | Inr u \<Rightarrow> py_contains k u)"

definition set_adf_loaded :: "bool option \<Rightarrow> unit action" where
  "set_adf_loaded b s = Some (Inr (), s\<lparr>adf_loaded := b\<rparr>)"

definition set_duplex :: "bool option \<Rightarrow> unit action" where
  "set_duplex b s = Some (Inr (), s\<lparr>duplex := b\<rparr>)"

definition set_output_duplex :: "bool option \<Rightarrow> unit action" where
  "set_output_duplex b s = Some (Inr (), s\<lparr>output_duplex := b\<rparr>)"

text \<open>
  \<open>Copy._updating_ticket\<close> is two statements and a \<open>return\<close>: the \<open>if "src" in payload\<close>
  block, which only sets flags, and the \<open>if "dest" in payload\<close> block, which sets a flag and
  may rewrite the binding. The second yields the payload as it leaves the method.
\<close>

definition Copy_updating_ticket_src :: "pyval \<Rightarrow> unit action" where
  "Copy_updating_ticket_src payload =
     bindA (liftA (py_contains ''src'' payload)) (\<lambda>has_src.
       if has_src then
         thenA
           (bindA (liftA (py_contains_at ''mediaSource'' payload [''src'', ''scan''])) (\<lambda>b.
              if b then
                bindA (liftA (py_path payload [''src'', ''scan'', ''mediaSource''])) (\<lambda>v.
                  if v = PStr ''flatbed'' then set_adf_loaded (Some False) else returnA ())
              else returnA ()))
           (bindA (liftA (py_contains_at ''plexMode'' payload [''src'', ''scan''])) (\<lambda>b.
              if b then
                bindA (liftA (py_path payload [''src'', ''scan'', ''plexMode''])) (\<lambda>v.
                  if v = PStr ''duplex'' then set_duplex (Some True) else returnA ())
              else returnA ()))
       else returnA ())"

definition Copy_updating_ticket_dest :: "pyval \<Rightarrow> pyval action" where
  "Copy_updating_ticket_dest payload =
     bindA (liftA (py_contains ''dest'' payload)) (\<lambda>has_dest.
       if has_dest then
         bindA (liftA (py_contains_at ''plexMode'' payload [''dest'', ''print''])) (\<lambda>b.
           if b then
             bindA (liftA (py_path payload [''dest'', ''print'', ''plexMode''])) (\<lambda>v.
               if v = PStr ''duplex'' then
                 thenA (set_output_duplex (Some True))
                   (bindA (liftA (py_contains_at ''duplexBinding'' payload [''dest'', ''print'']))
                      (\<lambda>hb.
                        if hb then
                          bindA (liftA (py_path payload [''dest'', ''print'', ''duplexBinding'']))
                            (\<lambda>db.
                              if db = PStr ''oneSided''
                              then liftA (py_setpath payload
                                     [''dest'', ''print'', ''duplexBinding'']
                                     (PStr ''twoSidedLongEdge''))
                              else returnA payload)
                        else liftA (py_setpath payload
                               [''dest'', ''print'', ''duplexBinding'']
                               (PStr ''twoSidedLongEdge''))))
               else returnA payload)
           else returnA payload)
       else returnA payload)"

definition Copy_updating_ticket :: "pyval \<Rightarrow> pyval action" where
  "Copy_updating_ticket payload =
     thenA (Copy_updating_ticket_src payload) (Copy_updating_ticket_dest payload)"



definition Copy_wait_for_state :: "world \<Rightarrow> string \<Rightarrow> string list \<Rightarrow> pyval action" where
  "Copy_wait_for_state w jobid final_states = invoke w (JM_wait_for_job_state jobid final_states)"

definition Copy_has_two_segment_pipeline :: "world \<Rightarrow> string \<Rightarrow> bool action" where
  "Copy_has_two_segment_pipeline w ticket_id =
     try_except_all
       (bindA (invoke w (JT_get_info ticket_id)) (\<lambda>data.
        bindA (liftA (py_path data [''src'', ''scan'', ''scanCaptureMode''])) (\<lambda>field_value.
        returnA (field_value = PStr ''jobBuild''))))
       (returnA False)"

definition Copy_get_copy_configuration :: "world \<Rightarrow> pyval action" where
  "Copy_get_copy_configuration w = invoke w (CDM_get ''COPY_CONFIGURATION_ENDPOINT'')"

section \<open>copy_dune.py: class CopyDune\<close>

text \<open>The \<open>for _ in range(preview_reps)\<close> loop, on the number of iterations left.\<close>

fun CopyDune_preview_loop :: "world \<Rightarrow> string \<Rightarrow> nat \<Rightarrow> unit action" where
  "CopyDune_preview_loop w job_id 0 = returnA ()"
| "CopyDune_preview_loop w job_id (Suc n) =
     thenA (invoke w (JM_change_job_state job_id ''Preview'' ''prepareProcessing'' None))
    (thenA (time_sleep 2.5)
    (thenA (invoke w (JM_wait_for_job_state job_id [''ready'']))
    (thenA (logging_info ''Preview Job Id : {}'' [PStr job_id])
           (CopyDune_preview_loop w job_id n))))"

definition CopyDune_preview_start :: "world \<Rightarrow> string \<Rightarrow> string \<Rightarrow> int \<Rightarrow> unit action" where
  "CopyDune_preview_start w job_id ticket_id preview_reps =
     thenA (Copy_preview_start w job_id ticket_id)
       (if preview_reps \<noteq> 0
        then CopyDune_preview_loop w job_id (nat preview_reps)
        else returnA ())"

text \<open>The two statements of the \<open>try\<close> branch that both \<open>start\<close> methods share, word for word.\<close>

definition answer_flatbedAddPage :: "world \<Rightarrow> unit action" where
  "answer_flatbedAddPage w =
     thenA (invoke w (JM_wait_for_alerts ''flatbedAddPage''))
    (thenA (invoke w (JM_alert_action ''flatbedAddPage'' ''Response_02''))
           (returnA ()))"

definition CopyDune_start :: "world \<Rightarrow> string \<Rightarrow> string \<Rightarrow> int \<Rightarrow> pyval action" where
  "CopyDune_start w job_id ticket_id preview_reps =
     thenA (CopyDune_preview_start w job_id ticket_id preview_reps)
       (if preview_reps = 0 then
          bindA (Copy_change_job_state w job_id ''Start'' ''startProcessing'') (\<lambda>start_state.
          returnA start_state)
        else
          thenA (time_sleep 2.5)
         (bindA (Copy_change_job_state w job_id ''Start'' ''startProcessing'') (\<lambda>start_state.
          thenA (logging_info ''Waiting for job to be ready'' [])
         (bindA (invoke w (UDW_isMediaLoaded ''ADF'')) (\<lambda>adf_loaded.
          thenA (try_except_TimeoutError
                   (if \<not> truthy adf_loaded
                    then answer_flatbedAddPage w
                    else logging_info ''ADF is loaded, no need to add flatbed page'' [])
                   (logging_info ''flatbed Add page is not available'' []))
                (returnA start_state))))))"

section \<open>copy_enterprise.py: class CopyEnterprise\<close>

definition CopyEnterprise_updating_ticket :: "pyval \<Rightarrow> pyval action" where
  "CopyEnterprise_updating_ticket payload =
     bindA (Copy_updating_ticket payload) (\<lambda>payload'.
     bindA (liftA (case py_get payload' ''src'' (PDict []) of
                     Inl e \<Rightarrow> Inl e
                   | Inr a \<Rightarrow> (case py_get a ''scan'' (PDict []) of
                                Inl e \<Rightarrow> Inl e
                              | Inr b \<Rightarrow> py_get b ''resolution'' PNone)))
       (\<lambda>resolution.
          if truthy resolution
          then liftA (py_setpath payload' [''src'', ''scan'', ''resolution''] (PStr ''e600Dpi''))
          else returnA payload'))"

text \<open>\<open>not self._adf_loaded and self._output_duplex is True\<close> on the instance's flags.\<close>

definition flags_want_alert :: "copy_state \<Rightarrow> bool" where
  "flags_want_alert s = (adf_loaded s \<noteq> Some True \<and> output_duplex s = Some True)"

definition CopyEnterprise_start :: "world \<Rightarrow> string \<Rightarrow> string \<Rightarrow> int \<Rightarrow> pyval action" where
  "CopyEnterprise_start w job_id ticket_id preview_reps =
     thenA (CopyDune_preview_start w job_id ticket_id preview_reps)
    (thenA (time_sleep 2.5)
    (bindA (Copy_change_job_state w job_id ''Start'' ''startProcessing'') (\<lambda>start_state.
     thenA (logging_info ''Waiting for job to be ready'' [])
    (bindA (invoke w (UDW_isMediaLoaded ''ADF'')) (\<lambda>adf_loaded.
     thenA (try_except_TimeoutError
              (\<lambda>s. (if preview_reps = 0 then
                      (if flags_want_alert s then answer_flatbedAddPage w else returnA ())
                    else if \<not> truthy adf_loaded then answer_flatbedAddPage w
                    else logging_info ''ADF is loaded, no need to add flatbed page'' []) s)
              (logging_info ''flatbed Add page is not available'' []))
           (returnA start_state))))))"

section \<open>copy_designjet.py: class CopyDesignJet\<close>

definition CopyDesignJet_start :: "world \<Rightarrow> string \<Rightarrow> string \<Rightarrow> int \<Rightarrow> pyval action" where
  "CopyDesignJet_start w job_id ticket_id preview_reps =
     thenA (CopyDune_preview_start w job_id ticket_id 0)
    (thenA
       (bindA (if ticket_id \<noteq> [] then Copy_has_two_segment_pipeline w ticket_id
               else returnA False) (\<lambda>two_segment.
          if two_segment then
            bindA (invoke w (JM_change_job_state job_id ''Prepare_Processing''
                               ''prepareProcessing'' None)) (\<lambda>status_code.
            thenA (py_assert (status_code = PInt 200) [])
           (thenA (Copy_wait_for_state w job_id [''processing''])
           (bindA (invoke w (JM_wait_for_all_previews_done job_id)) (\<lambda>result.
            thenA (py_assert (truthy result) ''Preview jobs did not finish successfully'')
           (bindA (Copy_get_copy_configuration w) (\<lambda>cfg.
            bindA (liftA (py_getitem cfg ''copyMode'')) (\<lambda>copyMode.
              if copyMode = PStr ''printWhileScanning'' then
                thenA (logging_info
                  ''Copy mode is already set to printWhileScanning. Wait for start print to finish job.''
                  [])
               (thenA (invoke w (JM_wait_for_job_processing_sub_status ''printing''))
                      (returnA ()))
              else returnA ())))))))
          else returnA ()))
       (bindA (Copy_change_job_state w job_id ''Start'' ''startProcessing'') (\<lambda>start_state.
        returnA start_state)))"

section \<open>Construction: \<open>__new__\<close> of CopyDune and CopyHomePro\<close>

text \<open>An instance is represented by its class.\<close>

datatype copy_class = Copy | CopyDune | CopyEnterprise | CopyDesignJet | CopyHomePro | CopyBeam

text \<open>
  \<open>Copy.__new__\<close>: called on \<open>Copy\<close> itself it stores the device's family and product names
  as class attributes and rebinds \<open>cls\<close> to \<open>CopyDune\<close>; then \<open>super().__new__(cls)\<close>, the
  allocator of the classes above \<open>Copy\<close>, creates an instance of \<open>cls\<close>. No \<open>__new__\<close> of a
  subclass is entered from here.
\<close>

definition Copy_new :: "copy_class \<Rightarrow> exn + copy_class" where
  "Copy_new cls = Inr (if cls = Copy then CopyDune else cls)"

text \<open>
  Modelled from the spec: \<open>CopyBeam\<close> (module \<open>dunetuf.copy.dune.homepro.copy_beam\<close>) is not
  among the sources; constructing it yields the Beam refinement of HomePro.
\<close>

definition CopyBeam_construct :: "exn + copy_class" where
  "CopyBeam_construct = Inr CopyBeam"

text \<open>
  \<open>caller\<close> is the module name of the calling frame (\<open>None\<close> when \<open>inspect.getmodule\<close>
  finds none); \<open>family_name\<close> and \<open>product_name\<close> are the class attributes
  \<open>cls._family_name\<close> and \<open>cls._product_name\<close> that \<open>Copy.__new__\<close> stored.
  \<open>CopyEnterprise(...)\<close> and \<open>CopyDesignJet(...)\<close> inherit \<open>CopyDune.__new__\<close>;
  \<open>CopyHomePro(...)\<close> runs its own, whose \<open>super().__new__\<close> is \<open>CopyDune.__new__\<close> again.
\<close>

definition caller_rejected :: "string option \<Rightarrow> string \<Rightarrow> bool" where
  "caller_rejected caller pfx =
     (case caller of None \<Rightarrow> True | Some name \<Rightarrow> \<not> prefix pfx name)"

function CopyDune_new :: "copy_class \<Rightarrow> string option \<Rightarrow> string \<Rightarrow> string \<Rightarrow> exn + copy_class"
  and CopyHomePro_new :: "copy_class \<Rightarrow> string option \<Rightarrow> string \<Rightarrow> string \<Rightarrow> exn + copy_class"
  where
  "CopyDune_new cls caller family_name product_name =
     (if cls = CopyDune then
        (if caller_rejected caller ''dunetuf.copy.copy''
         then Inl (Exn ''RuntimeError''
                ''CopyDune (and its subclasses) can only be instantiated via Copy.'')
         else if family_name = ''enterprise''
         then CopyDune_new CopyEnterprise (Some ''dunetuf.copy.dune.copy_dune'')
                family_name product_name
         else if family_name = ''designjet''
         then CopyDune_new CopyDesignJet (Some ''dunetuf.copy.dune.copy_dune'')
                family_name product_name
         else if family_name = ''homepro''
         then CopyHomePro_new CopyHomePro (Some ''dunetuf.copy.dune.copy_dune'')
                family_name product_name
         else Copy_new cls)
      else Copy_new cls)"
| "CopyHomePro_new cls caller family_name product_name =
     (if cls = CopyHomePro then
        (if caller_rejected caller ''dunetuf.copy.dune.copy_dune''
         then Inl (Exn ''RuntimeError''
                ''CopyHomePro (and its subclasses) can only be instantiated via CopyDune.'')
         else if py_substring ''beam'' product_name
         then CopyBeam_construct
         else CopyDune_new cls (Some ''dunetuf.copy.dune.homepro.copy_homepro'')
                family_name product_name)
      else CopyDune_new cls (Some ''dunetuf.copy.dune.homepro.copy_homepro'')
             family_name product_name)"
  by pat_completeness auto
termination
  by (relation "measure (\<lambda>x. case x of
          Inl (cls, _) \<Rightarrow> (if cls = CopyDune then 5 else 1)
        | Inr (cls, _) \<Rightarrow> (if cls = CopyDune then 6 else if cls = CopyHomePro then 4 else 2))")
     auto

text \<open>
  The expression \<open>Copy()\<close>, the constructor the library offers, on a device whose configuration
  reports \<open>family_name\<close> and \<open>product_name\<close>: the instance is what \<open>Copy.__new__(Copy)\<close>
  returns. The two names are stored on the class and not read again before the instance
  exists.
\<close>

definition Copy_construct :: "string \<Rightarrow> string \<Rightarrow> exn + copy_class" where
  "Copy_construct family_name product_name = Copy_new Copy"

section \<open>Vocabulary for call traces\<close>

text \<open>The calls that the properties below name.\<close>

definition Start_call :: "string \<Rightarrow> call" where
  "Start_call job_id = JM_change_job_state job_id ''Start'' ''startProcessing'' (Some PNone)"

definition Preview_call :: "string \<Rightarrow> call" where
  "Preview_call job_id = JM_change_job_state job_id ''Preview'' ''prepareProcessing'' None"

definition Initialize_call :: "string \<Rightarrow> call" where
  "Initialize_call job_id = JM_change_job_state job_id ''Initialize'' ''initializeProcessing'' None"

definition Starting_log :: "string \<Rightarrow> call" where
  "Starting_log job_id = Log_info ''Starting job : %s'' [PStr job_id]"

text \<open>One unsuccessful readiness poll: read the clock, ask for the job, sleep two seconds.\<close>

definition poll_round :: "string \<Rightarrow> call list" where
  "poll_round job_id = [Time_time, JM_get_job_info job_id PNone, Time_sleep 2]"

definition poll_rounds :: "string \<Rightarrow> nat \<Rightarrow> call list" where
  "poll_rounds job_id n = concat (replicate n (poll_round job_id))"

text \<open>The loop condition, and what the poll reads as the job's state, after history \<open>h\<close>.\<close>

definition in_time :: "world \<Rightarrow> real \<Rightarrow> call list \<Rightarrow> bool" where
  "in_time w start_time h = (clock w h - start_time < real_of_int (WAIT_START_JOB_TIMEOUT w))"

definition polled_state :: "world \<Rightarrow> string \<Rightarrow> call list \<Rightarrow> exn + pyval" where
  "polled_state w job_id h =
     (case respond w (h @ [Time_time]) (JM_get_job_info job_id PNone) of
        Inl e \<Rightarrow> Inl e
      | Inr job_info \<Rightarrow> py_get job_info ''state'' PNone)"

text \<open>The calls of a \<open>Copy.preview_start\<close> that sees "ready" at its \<open>n+1\<close>-st poll.\<close>

definition ready_wait_calls :: "string \<Rightarrow> nat \<Rightarrow> call list" where
  "ready_wait_calls job_id n =
     [Starting_log job_id, Initialize_call job_id, Time_time] @ poll_rounds job_id n @
     [Time_time, JM_get_job_info job_id PNone]"

definition ready_wait_set :: "string \<Rightarrow> call set" where
  "ready_wait_set job_id =
     {Starting_log job_id, Initialize_call job_id, Time_time, JM_get_job_info job_id PNone,
      Time_sleep 2}"

text \<open>
  Inside \<open>Copy.preview_start\<close> started in state \<open>s\<close>: the reading taken as \<open>start_time\<close>,
  and the history at the loop test that follows \<open>k\<close> unsuccessful polls.
\<close>

definition wait_started :: "world \<Rightarrow> copy_state \<Rightarrow> string \<Rightarrow> real" where
  "wait_started w s job_id = clock w (trace s @ [Starting_log job_id, Initialize_call job_id])"

definition poll_history :: "copy_state \<Rightarrow> string \<Rightarrow> nat \<Rightarrow> call list" where
  "poll_history s job_id k =
     trace s @ [Starting_log job_id, Initialize_call job_id, Time_time] @ poll_rounds job_id k"

definition still_waiting :: "world \<Rightarrow> copy_state \<Rightarrow> string \<Rightarrow> nat \<Rightarrow> bool" where
  "still_waiting w s job_id k =
     (in_time w (wait_started w s job_id) (poll_history s job_id k) \<and>
      (case polled_state w job_id (poll_history s job_id k) of
         Inl e \<Rightarrow> False
       | Inr st \<Rightarrow> st \<noteq> PStr ''ready''))"

definition ready_timeout_message :: "world \<Rightarrow> string" where
  "ready_timeout_message w =
     ''Job has not reached the ready state after '' @ str_int (WAIT_START_JOB_TIMEOUT w) @
     '' seconds''"

text \<open>One preview iteration, and \<open>n\<close> of them.\<close>

definition preview_round :: "string \<Rightarrow> call list" where
  "preview_round job_id =
     [Preview_call job_id, Time_sleep 2.5, JM_wait_for_job_state job_id [''ready''],
      Log_info ''Preview Job Id : {}'' [PStr job_id]]"

definition preview_rounds :: "string \<Rightarrow> nat \<Rightarrow> call list" where
  "preview_rounds job_id n = concat (replicate n (preview_round job_id))"

text \<open>The calls around the flatbed alert, after the Start state change.\<close>

definition Waiting_log :: call where
  "Waiting_log = Log_info ''Waiting for job to be ready'' []"

definition isMediaLoaded_call :: call where
  "isMediaLoaded_call = UDW_isMediaLoaded ''ADF''"

definition Wait_alert_call :: call where
  "Wait_alert_call = JM_wait_for_alerts ''flatbedAddPage''"

definition Answer_alert_call :: call where
  "Answer_alert_call = JM_alert_action ''flatbedAddPage'' ''Response_02''"

definition ADF_loaded_log :: call where
  "ADF_loaded_log = Log_info ''ADF is loaded, no need to add flatbed page'' []"

definition No_alert_log :: call where
  "No_alert_log = Log_info ''flatbed Add page is not available'' []"

definition after_start_set :: "call set" where
  "after_start_set =
     {Waiting_log, isMediaLoaded_call, Wait_alert_call, Answer_alert_call, ADF_loaded_log,
      No_alert_log}"

text \<open>
  What \<open>start\<close> does, in state \<open>s\<close>, once the Start state change has returned \<open>code\<close> and the
  media query has returned. If it \<open>waits\<close>, it waits for the "flatbedAddPage" alert and
  answers it with "Response_02"; a \<open>TimeoutError\<close> from either call is caught and logged, any
  other exception propagates. If it does not wait, it makes no alert call (and \<open>logs\<close> says
  whether it logs that the feeder is loaded). Unless an exception propagates it returns
  \<open>code\<close>.
\<close>

definition flatbed_alert_outcome ::
  "world \<Rightarrow> pyval \<Rightarrow> bool \<Rightarrow> bool \<Rightarrow> copy_state \<Rightarrow> ((exn + pyval) \<times> copy_state) option" where
  "flatbed_alert_outcome w code waits logs s =
     (if waits then
        (case respond w (trace s) Wait_alert_call of
           Inl e \<Rightarrow>
             if exn_class e = ''TimeoutError''
             then Some (Inr code, s\<lparr>trace := trace s @ [Wait_alert_call, No_alert_log]\<rparr>)
             else Some (Inl e, s\<lparr>trace := trace s @ [Wait_alert_call]\<rparr>)
         | Inr v \<Rightarrow>
             (case respond w (trace s @ [Wait_alert_call]) Answer_alert_call of
                Inl e \<Rightarrow>
                  if exn_class e = ''TimeoutError''
                  then Some (Inr code, s\<lparr>trace := trace s @
                                [Wait_alert_call, Answer_alert_call, No_alert_log]\<rparr>)
                  else Some (Inl e, s\<lparr>trace := trace s @
                                [Wait_alert_call, Answer_alert_call]\<rparr>)
              | Inr u \<Rightarrow> Some (Inr code, s\<lparr>trace := trace s @
                                [Wait_alert_call, Answer_alert_call]\<rparr>)))
      else Some (Inr code, if logs then s\<lparr>trace := trace s @ [ADF_loaded_log]\<rparr> else s))"

text \<open>An instance on which \<open>create_ticket\<close> has recorded a flatbed job without duplex output.\<close>

definition flatbed_simplex_instance :: copy_state where
  "flatbed_simplex_instance = Copy_init\<lparr>adf_loaded := Some False\<rparr>"

text \<open>An instance on which \<open>create_ticket\<close> has recorded a flatbed job with duplex output.\<close>

definition flatbed_duplex_instance :: copy_state where
  "flatbed_duplex_instance = Copy_init\<lparr>adf_loaded := Some False, output_duplex := Some True\<rparr>"

text \<open>The calls of the two-segment pipeline in \<open>CopyDesignJet.start\<close>.\<close>

definition Prepare_call :: "string \<Rightarrow> call" where
  "Prepare_call job_id =
     JM_change_job_state job_id ''Prepare_Processing'' ''prepareProcessing'' None"

definition Wait_processing_call :: "string \<Rightarrow> call" where
  "Wait_processing_call job_id = JM_wait_for_job_state job_id [''processing'']"

definition Previews_done_call :: "string \<Rightarrow> call" where
  "Previews_done_call job_id = JM_wait_for_all_previews_done job_id"

definition Copy_configuration_call :: call where
  "Copy_configuration_call = CDM_get ''COPY_CONFIGURATION_ENDPOINT''"

definition Printing_log :: call where
  "Printing_log = Log_info
     ''Copy mode is already set to printWhileScanning. Wait for start print to finish job.'' []"

definition Wait_printing_call :: call where
  "Wait_printing_call = JM_wait_for_job_processing_sub_status ''printing''"

definition two_segment_calls :: "string \<Rightarrow> call list" where
  "two_segment_calls job_id =
     [Prepare_call job_id, Wait_processing_call job_id, Previews_done_call job_id,
      Copy_configuration_call]"

text \<open>What \<open>self.get_copy_configuration()["copyMode"]\<close> evaluates to after history \<open>h\<close>.\<close>

definition reported_copy_mode :: "world \<Rightarrow> call list \<Rightarrow> exn + pyval" where
  "reported_copy_mode w h =
     (case respond w h Copy_configuration_call of
        Inl e \<Rightarrow> Inl e
      | Inr cfg \<Rightarrow> py_getitem cfg ''copyMode'')"

text \<open>Whether the ticket store, after history \<open>h\<close>, reads the ticket as a job-build ticket.\<close>

definition reads_jobBuild :: "world \<Rightarrow> call list \<Rightarrow> string \<Rightarrow> bool" where
  "reads_jobBuild w h ticket_id =
     (case respond w h (JT_get_info ticket_id) of
        Inl e \<Rightarrow> False
      | Inr data \<Rightarrow>
          py_path data [''src'', ''scan'', ''scanCaptureMode''] = Inr (PStr ''jobBuild''))"

text \<open>State \<open>s'\<close> is state \<open>s\<close> after further calls, all of them from the set \<open>A\<close>.\<close>

definition extends_by :: "call set \<Rightarrow> copy_state \<Rightarrow> copy_state \<Rightarrow> bool" where
  "extends_by A s s' = (\<exists>new. s' = s\<lparr>trace := trace s @ new\<rparr> \<and> set new \<subseteq> A)"

text \<open>What \<open>payload.get("src", {}).get("scan", {}).get("resolution")\<close> evaluates to.\<close>

definition get_resolution :: "pyval \<Rightarrow> exn + pyval" where
  "get_resolution p =
     (case py_get p ''src'' (PDict []) of
        Inl e \<Rightarrow> Inl e
      | Inr a \<Rightarrow> (case py_get a ''scan'' (PDict []) of
                   Inl e \<Rightarrow> Inl e
                 | Inr b \<Rightarrow> py_get b ''resolution'' PNone))"

section \<open>Concrete devices\<close>

text \<open>
  A device on which everything succeeds at once, as the mocks of \<open>test_copy.py\<close> do: every
  state change returns 200, the job reads "ready", the flatbed alert never comes.
  Ticket \<open>ticket_123\<close> is a job-build ticket; any other ticket id is unknown to the store.
\<close>

definition jobBuild_ticket :: pyval where
  "jobBuild_ticket =
     PDict [(''src'', PDict [(''scan'', PDict [(''scanCaptureMode'', PStr ''jobBuild'')])])]"

definition world_ready :: world where
  "world_ready =
     \<lparr>respond = (\<lambda>h c. case c of
          JM_get_job_info _ _ \<Rightarrow> Inr (PDict [(''state'', PStr ''ready'')])
        | JT_get_info tid \<Rightarrow>
            if tid = ''ticket_123'' then Inr jobBuild_ticket else Inl (Exn ''KeyError'' tid)
        | JT_create _ \<Rightarrow> Inr (PStr ''ticket_123'')
        | UDW_isMediaLoaded _ \<Rightarrow> Inr (PBool False)
        | CDM_get _ \<Rightarrow> Inr (PDict [(''copyMode'', PStr ''printWhileScanning'')])
        | JM_wait_for_alerts _ \<Rightarrow> Inl (Exn ''TimeoutError'' ''no alert'')
        | JM_wait_for_all_previews_done _ \<Rightarrow> Inr (PBool True)
        | _ \<Rightarrow> Inr (PInt 200)),
      clock = (\<lambda>h. 0),
      WAIT_START_JOB_TIMEOUT = 10\<rparr>"

text \<open>
  The same device with a job manager that answers every state change with 400.
\<close>

definition world_refusing :: world where
  "world_refusing = world_ready\<lparr>respond := (\<lambda>h c. Inr (PInt 400))\<rparr>"

text \<open>
  A device whose job stays "initializing" while each reading of the clock is two seconds
  after the one before, with a timeout of five seconds (\<open>test_start_timeout_waiting_for_ready\<close>).
\<close>

definition world_stuck :: world where
  "world_stuck =
     \<lparr>respond = (\<lambda>h c. case c of
          JM_get_job_info _ _ \<Rightarrow> Inr (PDict [(''state'', PStr ''initializing'')])
        | _ \<Rightarrow> Inr (PInt 200)),
      clock = (\<lambda>h. 2 * real (length (filter (\<lambda>c. c = Time_time) h))),
      WAIT_START_JOB_TIMEOUT = 5\<rparr>"

text \<open>A payload that asks for duplex output from the flatbed with a one-sided binding.\<close>

definition payload_duplex :: pyval where
  "payload_duplex =
     PDict [(''src'', PDict [(''scan'', PDict [(''mediaSource'', PStr ''flatbed''),
                                                (''resolution'', PStr ''e300Dpi'')])]),
            (''dest'', PDict [(''print'', PDict [(''plexMode'', PStr ''duplex''),
                                                  (''duplexBinding'', PStr ''oneSided'')])])]"

definition payload_duplex_normalized :: pyval where
  "payload_duplex_normalized =
     PDict [(''src'', PDict [(''scan'', PDict [(''mediaSource'', PStr ''flatbed''),
                                                (''resolution'', PStr ''e300Dpi'')])]),
            (''dest'', PDict [(''print'', PDict [(''plexMode'', PStr ''duplex''),
                                                  (''duplexBinding'', PStr ''twoSidedLongEdge'')])])]"

section \<open>Properties\<close>

lemmas action_defs = bindA_def thenA_def returnA_def raiseA_def liftA_def invoke_def
  logging_info_def time_time_def time_sleep_def py_assert_def

subsection \<open>The readiness poll\<close>

lemma poll_rounds_Suc: "poll_rounds j (Suc n) = poll_round j @ poll_rounds j n"
  by (simp add: poll_rounds_def)

lemma poll_rounds_0: "poll_rounds j 0 = []"
  by (simp add: poll_rounds_def)

lemma loop_unfold_waiting:
  assumes "in_time w t (trace s)" "polled_state w j (trace s) = Inr st" "st \<noteq> PStr ''ready''"
  shows "Copy_preview_start_loop w j t s =
         Copy_preview_start_loop w j t (s\<lparr>trace := trace s @ poll_round j\<rparr>)"
  using assms
  by (subst Copy_preview_start_loop.simps)
     (auto simp: in_time_def polled_state_def poll_round_def split: sum.splits)

lemma loop_unfold_expired:
  assumes "\<not> in_time w t (trace s)"
  shows "Copy_preview_start_loop w j t s = Some (Inr False, s\<lparr>trace := trace s @ [Time_time]\<rparr>)"
  using assms
  by (subst Copy_preview_start_loop.simps) (simp add: in_time_def)

lemma loop_unfold_ready:
  assumes "in_time w t (trace s)" "polled_state w j (trace s) = Inr (PStr ''ready'')"
  shows "Copy_preview_start_loop w j t s =
         Some (Inr True, s\<lparr>trace := trace s @ [Time_time, JM_get_job_info j PNone]\<rparr>)"
  using assms
  by (subst Copy_preview_start_loop.simps)
     (auto simp: in_time_def polled_state_def split: sum.splits)

lemma loop_unfold_raise:
  assumes "in_time w t (trace s)" "polled_state w j (trace s) = Inl e"
  shows "Copy_preview_start_loop w j t s =
         Some (Inl e, s\<lparr>trace := trace s @ [Time_time, JM_get_job_info j PNone]\<rparr>)"
  using assms
  by (subst Copy_preview_start_loop.simps)
     (auto simp: in_time_def polled_state_def split: sum.splits)

lemma loop_skip_rounds:
  assumes "\<forall>k<n. in_time w t (trace s @ poll_rounds j k) \<and>
             (\<exists>st. polled_state w j (trace s @ poll_rounds j k) = Inr st \<and> st \<noteq> PStr ''ready'')"
  shows "Copy_preview_start_loop w j t s =
         Copy_preview_start_loop w j t (s\<lparr>trace := trace s @ poll_rounds j n\<rparr>)"
  using assms
proof (induction n arbitrary: s)
  case 0
  then show ?case by (simp add: poll_rounds_0)
next
  case (Suc n)
  from Suc.prems have h0: "in_time w t (trace s)"
    and "\<exists>st. polled_state w j (trace s) = Inr st \<and> st \<noteq> PStr ''ready''"
    by (auto simp: poll_rounds_0 dest: spec[of _ 0])
  then obtain st where st: "polled_state w j (trace s) = Inr st" "st \<noteq> PStr ''ready''" by blast
  let ?s1 = "s\<lparr>trace := trace s @ poll_round j\<rparr>"
  have step: "Copy_preview_start_loop w j t s = Copy_preview_start_loop w j t ?s1"
    by (rule loop_unfold_waiting[OF h0 st])
  have "\<forall>k<n. in_time w t (trace ?s1 @ poll_rounds j k) \<and>
             (\<exists>st. polled_state w j (trace ?s1 @ poll_rounds j k) = Inr st \<and> st \<noteq> PStr ''ready'')"
  proof (intro allI impI)
    fix k assume "k < n"
    then have "Suc k < Suc n" by simp
    with Suc.prems show "in_time w t (trace ?s1 @ poll_rounds j k) \<and>
             (\<exists>st. polled_state w j (trace ?s1 @ poll_rounds j k) = Inr st \<and> st \<noteq> PStr ''ready'')"
      by (metis (no_types, lifting) append.assoc poll_rounds_Suc select_convs(1) surjective update_convs(1))
  qed
  from Suc.IH[OF this] step show ?case
    by (simp add: poll_rounds_Suc)
qed

lemma loop_result:
  assumes "Copy_preview_start_loop w j t s = Some y"
  shows "\<exists>n. (fst y = Inr False \<and> snd y = s\<lparr>trace := trace s @ poll_rounds j n @ [Time_time]\<rparr>) \<or>
             (fst y \<noteq> Inr False \<and>
              snd y = s\<lparr>trace := trace s @ poll_rounds j n @ [Time_time, JM_get_job_info j PNone]\<rparr>)"
  using assms
proof (induction w j t s y rule: Copy_preview_start_loop.raw_induct[rotated 1, consumes 1, case_names step])
  case (step loop w j t s y)
  note 1 = step
  show ?case
  proof (cases "clock w (trace s) - t < real_of_int (WAIT_START_JOB_TIMEOUT w)")
    case False
    with 1(2) have "y = (Inr False, s\<lparr>trace := trace s @ [Time_time]\<rparr>)" by simp
    then show ?thesis by (intro exI[of _ 0]) (simp add: poll_rounds_0)
  next
    case True
    note intime = this
    show ?thesis
    proof (cases "polled_state w j (trace s)")
      case (Inl e)
      with intime 1(2) have "y = (Inl e, s\<lparr>trace := trace s @ [Time_time, JM_get_job_info j PNone]\<rparr>)"
        by (auto simp: polled_state_def split: sum.splits)
      then show ?thesis by (intro exI[of _ 0]) (simp add: poll_rounds_0)
    next
      case (Inr st)
      show ?thesis
      proof (cases "st = PStr ''ready''")
        case True
        with Inr intime 1(2)
        have "y = (Inr True, s\<lparr>trace := trace s @ [Time_time, JM_get_job_info j PNone]\<rparr>)"
          by (auto simp: polled_state_def split: sum.splits)
        then show ?thesis by (intro exI[of _ 0]) (simp add: poll_rounds_0)
      next
        case False
        with Inr intime 1(2)
        have rec: "loop w j t (s\<lparr>trace := trace s @ poll_round j\<rparr>) = Some y"
          by (auto simp: polled_state_def poll_round_def split: sum.splits)
        from 1(1)[OF rec] obtain n where
          "(fst y = Inr False \<and>
            snd y = s\<lparr>trace := trace s @ poll_round j @ poll_rounds j n @ [Time_time]\<rparr>) \<or>
           (fst y \<noteq> Inr False \<and>
            snd y = s\<lparr>trace := trace s @ poll_round j @ poll_rounds j n @
                                [Time_time, JM_get_job_info j PNone]\<rparr>)"
          by auto
        then show ?thesis
          by (intro exI[of _ "Suc n"]) (simp add: poll_rounds_Suc)
      qed
    qed
  qed
qed

lemma set_poll_rounds: "set (poll_rounds j n) \<subseteq> ready_wait_set j"
  by (induction n) (auto simp: poll_rounds_def poll_round_def ready_wait_set_def)

lemma set_ready_wait_calls: "set (ready_wait_calls j n) \<subseteq> ready_wait_set j"
  using set_poll_rounds[of j n] by (auto simp: ready_wait_calls_def ready_wait_set_def)

lemma Copy_preview_start_unfold:
  "Copy_preview_start w j tid s =
     (case respond w (trace s @ [Starting_log j]) (Initialize_call j) of
        Inl e \<Rightarrow> Some (Inl e, s\<lparr>trace := trace s @ [Starting_log j, Initialize_call j]\<rparr>)
      | Inr v \<Rightarrow>
          if v \<noteq> PInt 200
          then Some (Inl (Exn ''AssertionError'' []),
                     s\<lparr>trace := trace s @ [Starting_log j, Initialize_call j]\<rparr>)
          else (case Copy_preview_start_loop w j
                       (clock w (trace s @ [Starting_log j, Initialize_call j]))
                       (s\<lparr>trace := trace s @ [Starting_log j, Initialize_call j, Time_time]\<rparr>) of
                  None \<Rightarrow> None
                | Some (Inl e, s') \<Rightarrow> Some (Inl e, s')
                | Some (Inr ready, s') \<Rightarrow>
                    if ready then Some (Inr (), s')
                    else Some (Inl (Exn ''TimeoutError''
                           (''Job has not reached the ready state after '' @
                            str_int (WAIT_START_JOB_TIMEOUT w) @ '' seconds'')), s')))"
  by (simp add: Copy_preview_start_def action_defs Starting_log_def Initialize_call_def
           split: sum.splits option.splits)

lemma Copy_preview_start_result:
  assumes "Copy_preview_start w j tid s = Some (r, s')"
  shows "(r = Inr () \<and> (\<exists>n. s' = s\<lparr>trace := trace s @ ready_wait_calls j n\<rparr>)) \<or>
         (\<exists>e new. r = Inl e \<and> s' = s\<lparr>trace := trace s @ new\<rparr> \<and> set new \<subseteq> ready_wait_set j)"
proof (cases "respond w (trace s @ [Starting_log j]) (Initialize_call j)")
  case (Inl e)
  with assms have "r = Inl e" "s' = s\<lparr>trace := trace s @ [Starting_log j, Initialize_call j]\<rparr>"
    by (auto simp: Copy_preview_start_unfold)
  then show ?thesis by (auto simp: ready_wait_set_def)
next
  case (Inr v)
  show ?thesis
  proof (cases "v = PInt 200")
    case False
    with Inr assms have "r = Inl (Exn ''AssertionError'' [])"
      "s' = s\<lparr>trace := trace s @ [Starting_log j, Initialize_call j]\<rparr>"
      by (auto simp: Copy_preview_start_unfold)
    then show ?thesis by (auto simp: ready_wait_set_def)
  next
    case True
    let ?s0 = "s\<lparr>trace := trace s @ [Starting_log j, Initialize_call j, Time_time]\<rparr>"
    let ?t = "clock w (trace s @ [Starting_log j, Initialize_call j])"
    from True Inr assms obtain y where y: "Copy_preview_start_loop w j ?t ?s0 = Some y"
      by (auto simp: Copy_preview_start_unfold split: option.splits)
    from loop_result[OF y] obtain n where n:
      "(fst y = Inr False \<and> snd y = ?s0\<lparr>trace := trace ?s0 @ poll_rounds j n @ [Time_time]\<rparr>) \<or>
       (fst y \<noteq> Inr False \<and>
        snd y = ?s0\<lparr>trace := trace ?s0 @ poll_rounds j n @ [Time_time, JM_get_job_info j PNone]\<rparr>)"
      by blast
    have sub: "set (poll_rounds j n) \<subseteq> ready_wait_set j" by (rule set_poll_rounds)
    from True Inr assms y have r: "(r, s') =
        (case y of (Inl e, s') \<Rightarrow> (Inl e, s')
         | (Inr ready, s') \<Rightarrow> if ready then (Inr (), s')
             else (Inl (Exn ''TimeoutError''
                           (''Job has not reached the ready state after '' @
                            str_int (WAIT_START_JOB_TIMEOUT w) @ '' seconds'')), s'))"
      by (auto simp: Copy_preview_start_unfold split: sum.splits prod.splits if_splits)
    from n show ?thesis
    proof
      assume a: "fst y = Inr False \<and> snd y = ?s0\<lparr>trace := trace ?s0 @ poll_rounds j n @ [Time_time]\<rparr>"
      then have "y = (Inr False, ?s0\<lparr>trace := trace ?s0 @ poll_rounds j n @ [Time_time]\<rparr>)"
        by (cases y) simp
      with r have "\<exists>e. r = Inl e"
        "s' = s\<lparr>trace := trace s @ ([Starting_log j, Initialize_call j, Time_time] @ poll_rounds j n @ [Time_time])\<rparr>"
        by auto
      moreover have "set ([Starting_log j, Initialize_call j, Time_time] @ poll_rounds j n @ [Time_time]) \<subseteq> ready_wait_set j"
        using sub by (auto simp: ready_wait_set_def)
      ultimately show ?thesis by blast
    next
      assume a: "fst y \<noteq> Inr False \<and>
        snd y = ?s0\<lparr>trace := trace ?s0 @ poll_rounds j n @ [Time_time, JM_get_job_info j PNone]\<rparr>"
      then have s': "s' = s\<lparr>trace := trace s @ ready_wait_calls j n\<rparr>"
        using r by (cases y) (auto simp: ready_wait_calls_def split: sum.splits if_splits)
      from a r have "r = Inr () \<or> (\<exists>e. r = Inl e)"
        by (cases y) (auto split: sum.splits if_splits)
      with s' set_ready_wait_calls[of j n] show ?thesis by blast
    qed
  qed
qed

subsection \<open>The preview loop\<close>

lemma bindA_SomeD:
  assumes "bindA m f s = Some (r, s')"
  shows "\<exists>r1 s1. m s = Some (r1, s1) \<and>
           (case r1 of Inl e \<Rightarrow> r = Inl e \<and> s' = s1 | Inr x \<Rightarrow> f x s1 = Some (r, s'))"
  using assms by (auto simp: bindA_def split: option.splits sum.splits prod.splits)

lemma thenA_SomeD:
  assumes "thenA m k s = Some (r, s')"
  shows "\<exists>r1 s1. m s = Some (r1, s1) \<and>
           (case r1 of Inl e \<Rightarrow> r = Inl e \<and> s' = s1 | Inr x \<Rightarrow> k s1 = Some (r, s'))"
  using assms unfolding thenA_def by (rule bindA_SomeD)

lemma preview_rounds_Suc: "preview_rounds j (Suc n) = preview_round j @ preview_rounds j n"
  by (simp add: preview_rounds_def)

lemma CopyDune_preview_loop_result:
  "\<exists>r s'. CopyDune_preview_loop w j n s = Some (r, s') \<and>
     ((r = Inr () \<and> s' = s\<lparr>trace := trace s @ preview_rounds j n\<rparr>) \<or>
      (\<exists>e new. r = Inl e \<and> s' = s\<lparr>trace := trace s @ new\<rparr> \<and> set new \<subseteq> set (preview_round j)))"
proof (induction n arbitrary: s)
  case 0
  show ?case by (simp add: returnA_def preview_rounds_def)
next
  case (Suc n)
  show ?case
  proof (cases "respond w (trace s) (Preview_call j)")
    case (Inl e)
    then have "CopyDune_preview_loop w j (Suc n) s =
        Some (Inl e, s\<lparr>trace := trace s @ [Preview_call j]\<rparr>)"
      by (simp add: action_defs Preview_call_def)
    then show ?thesis by (auto simp: preview_round_def)
  next
    case a: (Inr v)
    show ?thesis
    proof (cases "respond w (trace s @ [Preview_call j, Time_sleep 2.5])
                    (JM_wait_for_job_state j [''ready''])")
      case (Inl e)
      with a have "CopyDune_preview_loop w j (Suc n) s =
          Some (Inl e, s\<lparr>trace := trace s @
                 [Preview_call j, Time_sleep 2.5, JM_wait_for_job_state j [''ready'']]\<rparr>)"
        by (simp add: action_defs Preview_call_def)
      then show ?thesis by (auto simp: preview_round_def)
    next
      case b: (Inr u)
      let ?s1 = "s\<lparr>trace := trace s @ preview_round j\<rparr>"
      from a b have step: "CopyDune_preview_loop w j (Suc n) s = CopyDune_preview_loop w j n ?s1"
        by (simp add: action_defs Preview_call_def preview_round_def)
      from Suc.IH[of ?s1] obtain r s' where
        run: "CopyDune_preview_loop w j n ?s1 = Some (r, s')" and
        alt: "(r = Inr () \<and> s' = ?s1\<lparr>trace := trace ?s1 @ preview_rounds j n\<rparr>) \<or>
          (\<exists>e new. r = Inl e \<and> s' = ?s1\<lparr>trace := trace ?s1 @ new\<rparr> \<and>
             set new \<subseteq> set (preview_round j))"
        by blast
      from alt show ?thesis
      proof
        assume "r = Inr () \<and> s' = ?s1\<lparr>trace := trace ?s1 @ preview_rounds j n\<rparr>"
        with step run show ?thesis by (simp add: preview_rounds_Suc)
      next
        assume "\<exists>e new. r = Inl e \<and> s' = ?s1\<lparr>trace := trace ?s1 @ new\<rparr> \<and>
             set new \<subseteq> set (preview_round j)"
        then obtain e new where "r = Inl e" "s' = s\<lparr>trace := trace s @ (preview_round j @ new)\<rparr>"
          and sub: "set (preview_round j @ new) \<subseteq> set (preview_round j)" by auto
        with step run have "CopyDune_preview_loop w j (Suc n) s =
            Some (Inl e, s\<lparr>trace := trace s @ (preview_round j @ new)\<rparr>)" by simp
        with sub show ?thesis by blast
      qed
    qed
  qed
qed

lemma CopyDune_preview_start_result:
  assumes "CopyDune_preview_start w j tid reps s = Some (r, s')"
  shows "(r = Inr () \<and>
          (\<exists>n. s' = s\<lparr>trace := trace s @ ready_wait_calls j n @ preview_rounds j (nat reps)\<rparr>)) \<or>
         (\<exists>e new. r = Inl e \<and> s' = s\<lparr>trace := trace s @ new\<rparr> \<and>
            set new \<subseteq> ready_wait_set j \<union> (if reps = 0 then {} else set (preview_round j)))"
proof -
  from assms obtain r1 s1 where
    A: "Copy_preview_start w j tid s = Some (r1, s1)" and
    B: "case r1 of Inl e \<Rightarrow> r = Inl e \<and> s' = s1
        | Inr x \<Rightarrow> (if reps \<noteq> 0 then CopyDune_preview_loop w j (nat reps) else returnA ()) s1
                     = Some (r, s')"
    unfolding CopyDune_preview_start_def by (blast dest: thenA_SomeD)
  from Copy_preview_start_result[OF A] show ?thesis
  proof
    assume "\<exists>e new. r1 = Inl e \<and> s1 = s\<lparr>trace := trace s @ new\<rparr> \<and> set new \<subseteq> ready_wait_set j"
    with B show ?thesis by auto
  next
    assume "r1 = Inr () \<and> (\<exists>n. s1 = s\<lparr>trace := trace s @ ready_wait_calls j n\<rparr>)"
    then obtain n where r1: "r1 = Inr ()" and s1: "s1 = s\<lparr>trace := trace s @ ready_wait_calls j n\<rparr>"
      by blast
    show ?thesis
    proof (cases "reps = 0")
      case True
      with B r1 s1 show ?thesis by (auto simp: returnA_def preview_rounds_def)
    next
      case False
      with B r1 have run: "CopyDune_preview_loop w j (nat reps) s1 = Some (r, s')" by simp
      from CopyDune_preview_loop_result[of w j "nat reps" s1] run
      have "(r = Inr () \<and> s' = s1\<lparr>trace := trace s1 @ preview_rounds j (nat reps)\<rparr>) \<or>
        (\<exists>e new. r = Inl e \<and> s' = s1\<lparr>trace := trace s1 @ new\<rparr> \<and> set new \<subseteq> set (preview_round j))"
        by auto
      then show ?thesis
      proof
        assume "r = Inr () \<and> s' = s1\<lparr>trace := trace s1 @ preview_rounds j (nat reps)\<rparr>"
        with s1 show ?thesis by auto
      next
        assume "\<exists>e new. r = Inl e \<and> s' = s1\<lparr>trace := trace s1 @ new\<rparr> \<and>
                  set new \<subseteq> set (preview_round j)"
        then obtain e new where e: "r = Inl e" "s' = s\<lparr>trace := trace s @ (ready_wait_calls j n @ new)\<rparr>"
          "set new \<subseteq> set (preview_round j)" using s1 by auto
        have "set (ready_wait_calls j n @ new) \<subseteq> ready_wait_set j \<union> set (preview_round j)"
          using set_ready_wait_calls[of j n] e(3) by auto
        with False have "set (ready_wait_calls j n @ new) \<subseteq>
            ready_wait_set j \<union> (if reps = 0 then {} else set (preview_round j))" by simp
        with e(1,2) show ?thesis by blast
      qed
    qed
  qed
qed

subsection \<open>After the Start state change\<close>

lemmas call_names = Start_call_def Preview_call_def Initialize_call_def Starting_log_def
  Waiting_log_def isMediaLoaded_call_def Wait_alert_call_def Answer_alert_call_def
  ADF_loaded_log_def No_alert_log_def

lemma extends_by_I: "set new \<subseteq> A \<Longrightarrow> extends_by A s (s\<lparr>trace := trace s @ new\<rparr>)"
  unfolding extends_by_def by blast

lemma extends_by_refl: "extends_by A s s"
  unfolding extends_by_def by (rule exI[of _ "[]"]) simp

lemma extends_by_trans:
  assumes "extends_by A s s1" "extends_by B s1 s2"
  shows "extends_by (A \<union> B) s s2"
proof -
  from assms obtain n1 n2 where
    "s1 = s\<lparr>trace := trace s @ n1\<rparr>" "set n1 \<subseteq> A"
    "s2 = s1\<lparr>trace := trace s1 @ n2\<rparr>" "set n2 \<subseteq> B"
    unfolding extends_by_def by blast
  then have "s2 = s\<lparr>trace := trace s @ (n1 @ n2)\<rparr>" "set (n1 @ n2) \<subseteq> A \<union> B"
    by auto
  then show ?thesis unfolding extends_by_def by blast
qed

lemma extends_by_mono: "extends_by A s s' \<Longrightarrow> A \<subseteq> B \<Longrightarrow> extends_by B s s'"
  unfolding extends_by_def by blast

lemma try_alert_unfold:
  "try_except_TimeoutError (answer_flatbedAddPage w)
     (logging_info ''flatbed Add page is not available'' []) s =
   Some (case respond w (trace s) Wait_alert_call of
           Inl e \<Rightarrow>
             if exn_class e = ''TimeoutError''
             then (Inr (), s\<lparr>trace := trace s @ [Wait_alert_call, No_alert_log]\<rparr>)
             else (Inl e, s\<lparr>trace := trace s @ [Wait_alert_call]\<rparr>)
         | Inr v \<Rightarrow>
             (case respond w (trace s @ [Wait_alert_call]) Answer_alert_call of
                Inl e \<Rightarrow>
                  if exn_class e = ''TimeoutError''
                  then (Inr (), s\<lparr>trace := trace s @
                                    [Wait_alert_call, Answer_alert_call, No_alert_log]\<rparr>)
                  else (Inl e, s\<lparr>trace := trace s @ [Wait_alert_call, Answer_alert_call]\<rparr>)
              | Inr u \<Rightarrow> (Inr (), s\<lparr>trace := trace s @ [Wait_alert_call, Answer_alert_call]\<rparr>)))"
  by (simp add: try_except_TimeoutError_def answer_flatbedAddPage_def action_defs call_names
           split: sum.splits)

lemma try_alert_extends:
  assumes "try_except_TimeoutError (answer_flatbedAddPage w)
     (logging_info ''flatbed Add page is not available'' []) s = Some (r, s')"
  shows "extends_by after_start_set s s'"
proof -
  have "\<And>new. new \<in> {[Wait_alert_call, No_alert_log], [Wait_alert_call],
          [Wait_alert_call, Answer_alert_call, No_alert_log], [Wait_alert_call, Answer_alert_call]}
        \<Longrightarrow> extends_by after_start_set s (s\<lparr>trace := trace s @ new\<rparr>)"
    by (rule extends_by_I) (auto simp: after_start_set_def)
  with assms show ?thesis
    unfolding try_alert_unfold
    by (auto split: sum.splits if_splits)
qed

lemma try_log_unfold:
  "try_except_TimeoutError (logging_info msg args) h s =
     Some (Inr (), s\<lparr>trace := trace s @ [Log_info msg args]\<rparr>)"
  by (simp add: try_except_TimeoutError_def logging_info_def)

lemma try_return_unfold: "try_except_TimeoutError (returnA x) h s = Some (Inr x, s)"
  by (simp add: try_except_TimeoutError_def returnA_def)

lemma start_tail_result:
  assumes body: "\<And>adf s2 r s'.
        try_except_TimeoutError (m adf)
          (logging_info ''flatbed Add page is not available'' []) s2 = Some (r, s')
        \<Longrightarrow> extends_by after_start_set s2 s'"
    and run: "thenA (time_sleep 2.5)
       (bindA (Copy_change_job_state w j ''Start'' ''startProcessing'') (\<lambda>start_state.
        thenA (logging_info ''Waiting for job to be ready'' [])
       (bindA (invoke w (UDW_isMediaLoaded ''ADF'')) (\<lambda>adf.
        thenA (try_except_TimeoutError (m adf)
                 (logging_info ''flatbed Add page is not available'' []))
              (returnA start_state))))) s1 = Some (r, s')"
  shows "\<exists>rest. s' = s1\<lparr>trace := trace s1 @ Time_sleep 2.5 # Start_call j # rest\<rparr> \<and>
           set rest \<subseteq> after_start_set \<and>
           (\<forall>code. r = Inr code \<longrightarrow>
              respond w (trace s1 @ [Time_sleep 2.5]) (Start_call j) = Inr code)"
proof (cases "respond w (trace s1 @ [Time_sleep 2.5]) (Start_call j)")
  case (Inl e)
  with run have "r = Inl e" "s' = s1\<lparr>trace := trace s1 @ Time_sleep 2.5 # Start_call j # []\<rparr>"
    by (auto simp: action_defs Copy_change_job_state_def Start_call_def)
  then show ?thesis by (intro exI[of _ "[]"]) simp
next
  case code: (Inr code)
  show ?thesis
  proof (cases "respond w (trace s1 @ [Time_sleep 2.5, Start_call j, Waiting_log])
                  isMediaLoaded_call")
    case (Inl e)
    with code run have "r = Inl e"
      "s' = s1\<lparr>trace := trace s1 @ Time_sleep 2.5 # Start_call j #
                               [Waiting_log, isMediaLoaded_call]\<rparr>"
      by (auto simp: action_defs Copy_change_job_state_def call_names)
    then show ?thesis
      by (intro exI[of _ "[Waiting_log, isMediaLoaded_call]"]) (simp add: after_start_set_def)
  next
    case adf: (Inr adf)
    let ?s2 = "s1\<lparr>trace := trace s1 @ [Time_sleep 2.5, Start_call j, Waiting_log,
                                          isMediaLoaded_call]\<rparr>"
    from code adf run have tail: "thenA (try_except_TimeoutError (m adf)
                 (logging_info ''flatbed Add page is not available'' []))
              (returnA code) ?s2 = Some (r, s')"
      by (simp add: action_defs Copy_change_job_state_def call_names)
    then obtain r2 s3 where
      tr: "try_except_TimeoutError (m adf)
              (logging_info ''flatbed Add page is not available'' []) ?s2 = Some (r2, s3)" and
      fin: "case r2 of Inl e \<Rightarrow> r = Inl e \<and> s' = s3
            | Inr x \<Rightarrow> returnA code s3 = Some (r, s')"
      by (blast dest: thenA_SomeD)
    from fin have s3: "s' = s3" and r: "\<forall>c. r = Inr c \<longrightarrow> c = code"
      by (cases r2; auto simp: returnA_def)+
    from body[OF tr] obtain new where
      new: "s3 = ?s2\<lparr>trace := trace ?s2 @ new\<rparr>" "set new \<subseteq> after_start_set"
      unfolding extends_by_def by blast
    from new s3 have "s' = s1\<lparr>trace := trace s1 @ Time_sleep 2.5 # Start_call j #
                               ([Waiting_log, isMediaLoaded_call] @ new)\<rparr>"
      by simp
    moreover from new have "set ([Waiting_log, isMediaLoaded_call] @ new) \<subseteq> after_start_set"
      by (simp add: after_start_set_def)
    moreover from r code have "\<forall>c. r = Inr c \<longrightarrow>
              respond w (trace s1 @ [Time_sleep 2.5]) (Start_call j) = Inr c"
      by simp
    ultimately show ?thesis by blast
  qed
qed

lemma CopyDune_try_body:
  assumes "try_except_TimeoutError
             (if \<not> truthy adf then answer_flatbedAddPage w
              else logging_info ''ADF is loaded, no need to add flatbed page'' [])
             (logging_info ''flatbed Add page is not available'' []) s2 = Some (r, s')"
  shows "extends_by after_start_set s2 s'"
proof (cases "truthy adf")
  case False
  with assms show ?thesis by (simp add: try_alert_extends)
next
  case True
  with assms have "s' = s2\<lparr>trace := trace s2 @ [ADF_loaded_log]\<rparr>"
    by (simp add: try_log_unfold ADF_loaded_log_def)
  then show ?thesis by (simp add: extends_by_I after_start_set_def)
qed

lemma CopyEnterprise_try_body:
  assumes "try_except_TimeoutError
             (\<lambda>s. (if reps = 0 then
                      (if flags_want_alert s then answer_flatbedAddPage w else returnA ())
                    else if \<not> truthy adf then answer_flatbedAddPage w
                    else logging_info ''ADF is loaded, no need to add flatbed page'' []) s)
             (logging_info ''flatbed Add page is not available'' []) s2 = Some (r, s')"
  shows "extends_by after_start_set s2 s'"
proof -
  have eq: "try_except_TimeoutError
             (\<lambda>s. (if reps = 0 then
                      (if flags_want_alert s then answer_flatbedAddPage w else returnA ())
                    else if \<not> truthy adf then answer_flatbedAddPage w
                    else logging_info ''ADF is loaded, no need to add flatbed page'' []) s)
             (logging_info ''flatbed Add page is not available'' []) s2 =
        (if reps = 0 then
           (if flags_want_alert s2
            then try_except_TimeoutError (answer_flatbedAddPage w)
                   (logging_info ''flatbed Add page is not available'' []) s2
            else Some (Inr (), s2))
         else if \<not> truthy adf
         then try_except_TimeoutError (answer_flatbedAddPage w)
                (logging_info ''flatbed Add page is not available'' []) s2
         else Some (Inr (), s2\<lparr>trace := trace s2 @ [ADF_loaded_log]\<rparr>))"
    by (simp add: try_except_TimeoutError_def returnA_def logging_info_def ADF_loaded_log_def)
  have l: "extends_by after_start_set s2 (s2\<lparr>trace := trace s2 @ [ADF_loaded_log]\<rparr>)"
    by (simp add: extends_by_I after_start_set_def)
  from assms show ?thesis
    unfolding eq
    by (auto simp: try_alert_extends extends_by_refl l split: if_splits)
qed

subsection \<open>Two-segment-pipeline detection\<close>

lemma Copy_has_two_segment_pipeline_unfold:
  "Copy_has_two_segment_pipeline w ticket_id s =
     Some (Inr (reads_jobBuild w (trace s) ticket_id),
           s\<lparr>trace := trace s @ [JT_get_info ticket_id]\<rparr>)"
  by (auto simp: Copy_has_two_segment_pipeline_def try_except_all_def action_defs
           reads_jobBuild_def split: sum.splits option.splits)

text \<open>
  C4. For every ticket id, \<open>_has_two_segment_pipeline\<close> returns true exactly when the ticket
  store's \<open>get_info\<close> succeeds and the data it yields has
  \<open>src.scan.scanCaptureMode == "jobBuild"\<close>. If \<open>get_info\<close> raises, or a key on the path is
  absent, it returns false: the result is always a returned boolean, never an exception.
\<close>

theorem has_two_segment_pipeline_iff:
  "Copy_has_two_segment_pipeline w ticket_id s =
     Some (Inr (\<exists>data. respond w (trace s) (JT_get_info ticket_id) = Inr data \<and>
                  py_path data [''src'', ''scan'', ''scanCaptureMode''] = Inr (PStr ''jobBuild'')),
           s\<lparr>trace := trace s @ [JT_get_info ticket_id]\<rparr>)"
  by (auto simp: Copy_has_two_segment_pipeline_unfold reads_jobBuild_def split: sum.splits)

theorem has_two_segment_pipeline_witness:
  "Copy_has_two_segment_pipeline world_ready ''ticket_123'' Copy_init =
     Some (Inr True, Copy_init\<lparr>trace := [JT_get_info ''ticket_123'']\<rparr>) \<and>
   Copy_has_two_segment_pipeline world_ready ''lost'' Copy_init =
     Some (Inr False, Copy_init\<lparr>trace := [JT_get_info ''lost'']\<rparr>)"
  using has_two_segment_pipeline_iff [of world_ready "''ticket_123''" Copy_init]
        has_two_segment_pipeline_iff [of world_ready "''lost''" Copy_init]
  by (simp add: world_ready_def jobBuild_ticket_def Copy_init_def)

subsection \<open>Family resolution\<close>

lemma CopyDune_new_from_Copy_module:
  assumes "\<not> caller_rejected caller ''dunetuf.copy.copy''"
  shows "CopyDune_new CopyDune caller family_name product_name =
           Inr (if family_name = ''enterprise'' then CopyEnterprise
                else if family_name = ''designjet'' then CopyDesignJet
                else if family_name = ''homepro''
                     then (if py_substring ''beam'' product_name then CopyBeam else CopyHomePro)
                else CopyDune)"
  using assms by (simp add: Copy_new_def CopyBeam_construct_def caller_rejected_def)

lemma CopyDune_new_other_caller:
  assumes "caller_rejected caller ''dunetuf.copy.copy''"
  shows "CopyDune_new CopyDune caller family_name product_name =
           Inl (Exn ''RuntimeError''
                  ''CopyDune (and its subclasses) can only be instantiated via Copy.'')"
  using assms by simp

lemma Copy_construct_plain: "Copy_construct family_name product_name = Inr CopyDune"
  by (simp add: Copy_construct_def Copy_new_def)

text \<open>
  C8. On a device of the "enterprise" family, \<open>Copy()\<close> yields an instance of the plain
  \<open>CopyDune\<close>, not of \<open>CopyEnterprise\<close>; likewise for "designjet" and for "homepro" with a
  product name containing "beam". \<open>Copy.__new__\<close> allocates the instance itself and never
  enters \<open>CopyDune.__new__\<close>, which holds the table from family to variant: called from the
  \<open>Copy\<close> module, as its error message expects, that table selects \<open>CopyEnterprise\<close>,
  \<open>CopyDesignJet\<close> and \<open>CopyBeam\<close> on the same devices.
\<close>

theorem Copy_construct_skips_family_resolution:
  "Copy_construct ''enterprise'' ''printer'' = Inr CopyDune \<and>
   Copy_construct ''designjet'' ''plotter'' = Inr CopyDune \<and>
   Copy_construct ''homepro'' ''xbeam1'' = Inr CopyDune \<and>
   CopyDune_new CopyDune (Some ''dunetuf.copy.copy'') ''enterprise'' ''printer'' =
     Inr CopyEnterprise \<and>
   CopyDune_new CopyDune (Some ''dunetuf.copy.copy'') ''designjet'' ''plotter'' =
     Inr CopyDesignJet \<and>
   CopyDune_new CopyDune (Some ''dunetuf.copy.copy'') ''homepro'' ''xbeam1'' = Inr CopyBeam"
  by (simp add: Copy_construct_def Copy_new_def CopyBeam_construct_def caller_rejected_def)

subsection \<open>Waiting for the ready state\<close>

lemma Copy_preview_start_polling:
  assumes init: "respond w (trace s @ [Starting_log j]) (Initialize_call j) = Inr (PInt 200)"
    and waiting: "\<forall>k<n. still_waiting w s j k"
  shows "Copy_preview_start w j tid s =
     (case Copy_preview_start_loop w j (wait_started w s j) (s\<lparr>trace := poll_history s j n\<rparr>) of
        None \<Rightarrow> None
      | Some (Inl e, s') \<Rightarrow> Some (Inl e, s')
      | Some (Inr ready, s') \<Rightarrow>
          if ready then Some (Inr (), s')
          else Some (Inl (Exn ''TimeoutError'' (ready_timeout_message w)), s'))"
proof -
  let ?s0 = "s\<lparr>trace := trace s @ [Starting_log j, Initialize_call j, Time_time]\<rparr>"
  have "\<forall>k<n. in_time w (wait_started w s j) (trace ?s0 @ poll_rounds j k) \<and>
          (\<exists>st. polled_state w j (trace ?s0 @ poll_rounds j k) = Inr st \<and> st \<noteq> PStr ''ready'')"
  proof (intro allI impI)
    fix k assume "k < n"
    with waiting have sw: "still_waiting w s j k" by blast
    then show "in_time w (wait_started w s j) (trace ?s0 @ poll_rounds j k) \<and>
          (\<exists>st. polled_state w j (trace ?s0 @ poll_rounds j k) = Inr st \<and> st \<noteq> PStr ''ready'')"
      by (cases "polled_state w j (poll_history s j k)")
         (auto simp: still_waiting_def poll_history_def)
  qed
  from loop_skip_rounds[OF this]
  have "Copy_preview_start_loop w j (wait_started w s j) ?s0 =
        Copy_preview_start_loop w j (wait_started w s j) (s\<lparr>trace := poll_history s j n\<rparr>)"
    by (simp add: poll_history_def)
  with init show ?thesis
    by (simp add: Copy_preview_start_unfold wait_started_def ready_timeout_message_def
          split: option.splits sum.splits)
qed

lemma Copy_preview_start_expired:
  assumes init: "respond w (trace s @ [Starting_log j]) (Initialize_call j) = Inr (PInt 200)"
    and waiting: "\<forall>k<n. still_waiting w s j k"
    and late: "\<not> in_time w (wait_started w s j) (poll_history s j n)"
  shows "Copy_preview_start w j tid s =
     Some (Inl (Exn ''TimeoutError'' (ready_timeout_message w)),
           s\<lparr>trace := poll_history s j n @ [Time_time]\<rparr>)"
  using late by (simp add: Copy_preview_start_polling[OF init waiting] loop_unfold_expired)

lemma Copy_preview_start_ready:
  assumes init: "respond w (trace s @ [Starting_log j]) (Initialize_call j) = Inr (PInt 200)"
    and waiting: "\<forall>k<n. still_waiting w s j k"
    and intime: "in_time w (wait_started w s j) (poll_history s j n)"
    and ready: "polled_state w j (poll_history s j n) = Inr (PStr ''ready'')"
  shows "Copy_preview_start w j tid s = Some (Inr (), s\<lparr>trace := trace s @ ready_wait_calls j n\<rparr>)"
  using intime ready
  by (simp add: Copy_preview_start_polling[OF init waiting] loop_unfold_ready
        ready_wait_calls_def poll_history_def)

text \<open>
  C3. \<open>Copy.preview_start\<close>, once the Initialize state change has returned 200, polls
  \<open>get_job_info\<close> with a two-second sleep after each poll that does not read "ready".
  Suppose the first \<open>n\<close> polls are made within \<open>WAIT_START_JOB_TIMEOUT\<close> seconds of the start of
  the wait and none reads "ready". If the clock has then passed the bound, \<open>preview_start\<close>
  raises \<open>TimeoutError\<close> with the message "Job has not reached the ready state after T
  seconds", T the timeout value. If instead the next poll is within the bound and reads
  "ready", \<open>preview_start\<close> returns normally.
\<close>

theorem preview_start_timeout_or_ready:
  assumes "respond w (trace s @ [Starting_log job_id]) (Initialize_call job_id) = Inr (PInt 200)"
    and "\<forall>k<n. still_waiting w s job_id k"
  shows "(\<not> in_time w (wait_started w s job_id) (poll_history s job_id n) \<longrightarrow>
          Copy_preview_start w job_id ticket_id s =
            Some (Inl (Exn ''TimeoutError''
                    (''Job has not reached the ready state after '' @
                     str_int (WAIT_START_JOB_TIMEOUT w) @ '' seconds'')),
                  s\<lparr>trace := poll_history s job_id n @ [Time_time]\<rparr>)) \<and>
         (in_time w (wait_started w s job_id) (poll_history s job_id n) \<and>
          polled_state w job_id (poll_history s job_id n) = Inr (PStr ''ready'') \<longrightarrow>
          Copy_preview_start w job_id ticket_id s =
            Some (Inr (), s\<lparr>trace := trace s @ ready_wait_calls job_id n\<rparr>))"
  using Copy_preview_start_expired[OF assms] Copy_preview_start_ready[OF assms]
  by (simp add: ready_timeout_message_def)

lemma world_stuck_waiting: "k < 2 \<Longrightarrow> still_waiting world_stuck Copy_init ''job_456'' k"
proof -
  assume "k < 2"
  then have "k = 0 \<or> k = 1" by auto
  then show ?thesis
    by (auto simp: still_waiting_def in_time_def wait_started_def poll_history_def polled_state_def
          poll_rounds_def poll_round_def world_stuck_def Copy_init_def Starting_log_def
          Initialize_call_def)
qed

theorem preview_start_timeout_or_ready_witness:
  "respond world_stuck (trace Copy_init @ [Starting_log ''job_456'']) (Initialize_call ''job_456'')
     = Inr (PInt 200) \<and>
   still_waiting world_stuck Copy_init ''job_456'' 0 \<and>
   still_waiting world_stuck Copy_init ''job_456'' 1 \<and>
   \<not> in_time world_stuck (wait_started world_stuck Copy_init ''job_456'')
        (poll_history Copy_init ''job_456'' 2) \<and>
   Copy_preview_start world_stuck ''job_456'' ''ticket_123'' Copy_init =
     Some (Inl (Exn ''TimeoutError'' ''Job has not reached the ready state after 5 seconds''),
           Copy_init\<lparr>trace := poll_history Copy_init ''job_456'' 2 @ [Time_time]\<rparr>)"
proof -
  have a: "respond world_stuck (trace Copy_init @ [Starting_log ''job_456''])
             (Initialize_call ''job_456'') = Inr (PInt 200)"
    by (simp add: world_stuck_def Initialize_call_def)
  have b: "\<forall>k<2. still_waiting world_stuck Copy_init ''job_456'' k"
    using world_stuck_waiting by blast
  have c: "\<not> in_time world_stuck (wait_started world_stuck Copy_init ''job_456'')
        (poll_history Copy_init ''job_456'' 2)"
    by (simp add: in_time_def wait_started_def poll_history_def poll_rounds_def poll_round_def
          world_stuck_def Copy_init_def Starting_log_def Initialize_call_def numeral_2_eq_2)
  have d: "str_int (WAIT_START_JOB_TIMEOUT world_stuck) = ''5''"
    by (simp add: world_stuck_def str_int_def)
  have b0: "still_waiting world_stuck Copy_init ''job_456'' 0"
    and b1: "still_waiting world_stuck Copy_init ''job_456'' 1"
    using world_stuck_waiting by simp_all
  from preview_start_timeout_or_ready[OF a b, of "''ticket_123''"] c d a b0 b1 show ?thesis
    by simp
qed

subsection \<open>The Initialize state change\<close>

text \<open>
  C7, as stated, asks for a \<open>StateTransitionError\<close> when the Initialize state change returns a
  status other than 200. The source checks the status with \<open>assert\<close>: on the device that
  answers 400, \<open>preview_start\<close> raises \<open>AssertionError\<close>, which is not a
  \<open>StateTransitionError\<close>.
\<close>

theorem initialize_not_200_counterexample:
  "respond world_refusing (trace Copy_init @ [Starting_log ''job_456''])
     (Initialize_call ''job_456'') = Inr (PInt 400) \<and>
   Copy_preview_start world_refusing ''job_456'' ''ticket_123'' Copy_init =
     Some (Inl (Exn ''AssertionError'' []),
           Copy_init\<lparr>trace := [Starting_log ''job_456'', Initialize_call ''job_456'']\<rparr>) \<and>
   exn_class (Exn ''AssertionError'' []) \<noteq> ''StateTransitionError''"
  by (simp add: Copy_preview_start_unfold world_refusing_def Copy_init_def)

text \<open>
  C7, amended. For every job id, if the 'Initialize'/'initializeProcessing' state change issued
  at the start of \<open>preview_start\<close> returns any status other than 200, \<open>preview_start\<close> fails
  with \<open>AssertionError\<close> and makes no further call: the clock is not read and the job is not
  polled.
\<close>

theorem initialize_not_200_asserts:
  assumes "respond w (trace s @ [Starting_log job_id]) (Initialize_call job_id) = Inr status"
    and "status \<noteq> PInt 200"
  shows "Copy_preview_start w job_id ticket_id s =
           Some (Inl (Exn ''AssertionError'' []),
                 s\<lparr>trace := trace s @ [Starting_log job_id, Initialize_call job_id]\<rparr>)"
  using assms by (simp add: Copy_preview_start_unfold)

theorem initialize_not_200_asserts_witness:
  "respond world_refusing (trace Copy_init @ [Starting_log ''job_1'']) (Initialize_call ''job_1'')
     = Inr (PInt 400) \<and> PInt 400 \<noteq> PInt 200 \<and>
   Copy_preview_start world_refusing ''job_1'' ''ticket_1'' Copy_init =
     Some (Inl (Exn ''AssertionError'' []),
           Copy_init\<lparr>trace := trace Copy_init @ [Starting_log ''job_1'', Initialize_call ''job_1'']\<rparr>)"
proof -
  have a: "respond world_refusing (trace Copy_init @ [Starting_log ''job_1''])
             (Initialize_call ''job_1'') = Inr (PInt 400)"
    by (simp add: world_refusing_def)
  have b: "PInt 400 \<noteq> PInt 200" by simp
  from initialize_not_200_asserts[OF a b, of "''ticket_1''"] a b show ?thesis by simp
qed

subsection \<open>Ticket normalization\<close>

lemma py_setitem_getitem:
  "py_setitem v k x = Inr v' \<Longrightarrow> py_getitem v' k' = (if k' = k then Inr x else py_getitem v k')"
  by (cases v) (auto simp: update_conv')

lemma py_setpath3_path:
  assumes "py_setpath v [a, b, c] x = Inr v'"
  shows "py_path v' [a, b, c] = Inr x"
  using assms
  by (auto split: sum.splits simp: py_setitem_getitem)

lemma py_setpath3_other:
  assumes "py_setpath v [a, b, c] x = Inr v'" "k \<noteq> a"
  shows "py_getitem v' k = py_getitem v k"
  using assms
  by (auto split: sum.splits simp: py_setitem_getitem)






lemma Copy_updating_ticket_payload_duplex:
  "Copy_updating_ticket payload_duplex Copy_init =
     Some (Inr payload_duplex_normalized,
           Copy_init\<lparr>adf_loaded := Some False, output_duplex := Some True\<rparr>)"
  by (simp add: Copy_updating_ticket_def Copy_updating_ticket_src_def
        Copy_updating_ticket_dest_def action_defs py_contains_at_def set_adf_loaded_def
        set_output_duplex_def set_duplex_def payload_duplex_def payload_duplex_normalized_def
        Copy_init_def)


subsection \<open>The enterprise resolution override\<close>

lemma py_getitem_Inr_iff:
  "py_getitem v k = Inr x \<longleftrightarrow> (\<exists>d. v = PDict d \<and> map_of d k = Some x)"
  by (cases v) (auto split: option.splits)

lemma py_get_Inr_iff:
  "py_get v k dflt = Inr x \<longleftrightarrow>
     (\<exists>d. v = PDict d \<and> x = (case map_of d k of None \<Rightarrow> dflt | Some y \<Rightarrow> y))"
  by (cases v) auto

lemma get_resolution_truthy:
  assumes "get_resolution p = Inr r" "truthy r"
  shows "py_path p [''src'', ''scan'', ''resolution''] = Inr r"
proof -
  from assms(1) obtain a b where
    a: "py_get p ''src'' (PDict []) = Inr a" and
    b: "py_get a ''scan'' (PDict []) = Inr b" and
    r: "py_get b ''resolution'' PNone = Inr r"
    by (auto simp: get_resolution_def split: sum.splits)
  from r assms(2) obtain d3 where d3: "b = PDict d3" "map_of d3 ''resolution'' = Some r"
    by (auto simp: py_get_Inr_iff split: option.splits)
  then have bne: "b \<noteq> PDict []" by auto
  from b bne obtain d2 where d2: "a = PDict d2" "map_of d2 ''scan'' = Some b"
    by (auto simp: py_get_Inr_iff split: option.splits)
  then have ane: "a \<noteq> PDict []" by auto
  from a ane obtain d where d: "p = PDict d" "map_of d ''src'' = Some a"
    by (auto simp: py_get_Inr_iff split: option.splits)
  from d d2 d3 show ?thesis by simp
qed

lemma path_get_resolution:
  assumes "py_path p [''src'', ''scan'', ''resolution''] = Inr r"
  shows "get_resolution p = Inr r"
proof -
  from assms obtain a b where
    "py_getitem p ''src'' = Inr a" "py_getitem a ''scan'' = Inr b"
    "py_getitem b ''resolution'' = Inr r"
    by (auto split: sum.splits)
  then show ?thesis
    by (auto simp: py_getitem_Inr_iff get_resolution_def)
qed

lemma CopyEnterprise_updating_ticket_unfold:
  "CopyEnterprise_updating_ticket payload s =
     (case Copy_updating_ticket payload s of
        None \<Rightarrow> None
      | Some (Inl e, s') \<Rightarrow> Some (Inl e, s')
      | Some (Inr payload', s') \<Rightarrow>
          (case get_resolution payload' of
             Inl e \<Rightarrow> Some (Inl e, s')
           | Inr r \<Rightarrow>
               if truthy r
               then Some (py_setpath payload' [''src'', ''scan'', ''resolution''] (PStr ''e600Dpi''), s')
               else Some (Inr payload', s')))"
  by (simp add: CopyEnterprise_updating_ticket_def action_defs get_resolution_def
        split: option.splits sum.splits del: py_setpath.simps)

text \<open>
  C9. Whenever the enterprise ticket normalization returns, it has first applied the base
  normalization, which yields \<open>payload'\<close> and the instance's flags. Then, if \<open>payload'\<close> has a
  truthy value under \<open>src.scan.resolution\<close>, the returned payload is \<open>payload'\<close> with that value
  overwritten by "e600Dpi" (its \<open>dest\<close> section untouched); otherwise the returned payload is
  \<open>payload'\<close> itself, so its \<open>src\<close> section is unchanged.
\<close>

theorem enterprise_resolution_override:
  assumes "CopyEnterprise_updating_ticket payload s = Some (Inr payload'', s'')"
  shows "\<exists>payload'.
           Copy_updating_ticket payload s = Some (Inr payload', s'') \<and>
           (if \<exists>r. py_path payload' [''src'', ''scan'', ''resolution''] = Inr r \<and> truthy r
            then py_setpath payload' [''src'', ''scan'', ''resolution''] (PStr ''e600Dpi'')
                   = Inr payload'' \<and>
                 py_path payload'' [''src'', ''scan'', ''resolution''] = Inr (PStr ''e600Dpi'') \<and>
                 py_getitem payload'' ''dest'' = py_getitem payload' ''dest''
            else payload'' = payload')"
proof -
  from assms obtain payload' where
    base: "Copy_updating_ticket payload s = Some (Inr payload', s'')" and
    rest: "(case get_resolution payload' of
             Inl e \<Rightarrow> Some (Inl e, s'')
           | Inr r \<Rightarrow>
               if truthy r
               then Some (py_setpath payload' [''src'', ''scan'', ''resolution''] (PStr ''e600Dpi''), s'')
               else Some (Inr payload', s'')) = Some (Inr payload'', s'')"
    unfolding CopyEnterprise_updating_ticket_unfold
    by (auto split: option.splits sum.splits prod.splits if_splits simp del: py_setpath.simps)
  from rest obtain r where r: "get_resolution payload' = Inr r"
    by (cases "get_resolution payload'") auto
  show ?thesis
  proof (cases "truthy r")
    case True
    from get_resolution_truthy[OF r True] True
    have ex: "\<exists>r. py_path payload' [''src'', ''scan'', ''resolution''] = Inr r \<and> truthy r"
      by blast
    from rest r True
    have set: "py_setpath payload' [''src'', ''scan'', ''resolution''] (PStr ''e600Dpi'')
                 = Inr payload''"
      by (simp del: py_setpath.simps)
    have "py_path payload'' [''src'', ''scan'', ''resolution''] = Inr (PStr ''e600Dpi'')"
      using set by (rule py_setpath3_path)
    moreover have "py_getitem payload'' ''dest'' = py_getitem payload' ''dest''"
      using set by (rule py_setpath3_other) simp
    ultimately show ?thesis using base ex set by (simp del: py_setpath.simps py_path.simps)
  next
    case False
    have nex: "\<not> (\<exists>r. py_path payload' [''src'', ''scan'', ''resolution''] = Inr r \<and> truthy r)"
    proof
      assume "\<exists>r. py_path payload' [''src'', ''scan'', ''resolution''] = Inr r \<and> truthy r"
      then obtain r' where "py_path payload' [''src'', ''scan'', ''resolution''] = Inr r'" "truthy r'"
        by blast
      with path_get_resolution[of payload' r'] r False show False by simp
    qed
    from rest r False have same: "payload'' = payload'" by simp
    show ?thesis
      by (rule exI[of _ payload'], intro conjI, rule base, subst if_not_P[OF nex], rule same)
  qed
qed

lemma CopyEnterprise_updating_ticket_payload_duplex:
  "CopyEnterprise_updating_ticket payload_duplex Copy_init =
     Some (Inr (PDict [(''src'', PDict [(''scan'', PDict [(''mediaSource'', PStr ''flatbed''),
                                                (''resolution'', PStr ''e600Dpi'')])]),
            (''dest'', PDict [(''print'', PDict [(''plexMode'', PStr ''duplex''),
                                                  (''duplexBinding'', PStr ''twoSidedLongEdge'')])])]),
           Copy_init\<lparr>adf_loaded := Some False, output_duplex := Some True\<rparr>)"
  by (simp add: CopyEnterprise_updating_ticket_unfold Copy_updating_ticket_payload_duplex
        get_resolution_def payload_duplex_normalized_def)

theorem enterprise_resolution_override_witness:
  "CopyEnterprise_updating_ticket payload_duplex Copy_init =
     Some (Inr (PDict [(''src'', PDict [(''scan'', PDict [(''mediaSource'', PStr ''flatbed''),
                                                (''resolution'', PStr ''e600Dpi'')])]),
            (''dest'', PDict [(''print'', PDict [(''plexMode'', PStr ''duplex''),
                                                  (''duplexBinding'', PStr ''twoSidedLongEdge'')])])]),
           Copy_init\<lparr>adf_loaded := Some False, output_duplex := Some True\<rparr>) \<and>
   Copy_updating_ticket payload_duplex Copy_init =
     Some (Inr payload_duplex_normalized,
           Copy_init\<lparr>adf_loaded := Some False, output_duplex := Some True\<rparr>) \<and>
   py_path payload_duplex_normalized [''src'', ''scan'', ''resolution''] = Inr (PStr ''e300Dpi'') \<and>
   truthy (PStr ''e300Dpi'')"
  using enterprise_resolution_override[OF CopyEnterprise_updating_ticket_payload_duplex]
        CopyEnterprise_updating_ticket_payload_duplex Copy_updating_ticket_payload_duplex
  by (simp add: payload_duplex_normalized_def)

subsection \<open>Preview iterations before Start\<close>

lemma not_in_ready_wait_set:
  "Start_call j \<notin> ready_wait_set j" "Preview_call j \<notin> ready_wait_set j"
  "Wait_alert_call \<notin> ready_wait_set j"
  by (simp_all add: ready_wait_set_def call_names)

lemma not_in_preview_round:
  "Start_call j \<notin> set (preview_round j)" "Wait_alert_call \<notin> set (preview_round j)"
  by (simp_all add: preview_round_def call_names)

lemma not_in_after_start_set:
  "Start_call j \<notin> after_start_set" "Preview_call j \<notin> after_start_set"
  by (simp_all add: after_start_set_def call_names)

lemma not_in_preview_rounds:
  "Start_call j \<notin> set (preview_rounds j n)" "Wait_alert_call \<notin> set (preview_rounds j n)"
  using not_in_preview_round[of j] by (auto simp: preview_rounds_def)

lemma filter_absent: "c \<notin> set xs \<Longrightarrow> filter (\<lambda>x. x = c) xs = []"
  by (induction xs) auto

lemma count_preview_rounds:
  "length (filter (\<lambda>c. c = Preview_call j) (preview_rounds j n)) = n"
  by (induction n) (simp_all add: preview_rounds_def preview_round_def call_names)

lemma CopyDune_start_SomeD:
  assumes "CopyDune_start w j tid reps s = Some (r, s')"
  shows "(\<exists>e new. CopyDune_preview_start w j tid reps s = Some (Inl e, s') \<and> r = Inl e) \<or>
         (\<exists>s1. CopyDune_preview_start w j tid reps s = Some (Inr (), s1) \<and>
            (if reps = 0
             then r = respond w (trace s1) (Start_call j) \<and>
                  s' = s1\<lparr>trace := trace s1 @ [Start_call j]\<rparr>
             else \<exists>rest. s' = s1\<lparr>trace := trace s1 @ Time_sleep 2.5 # Start_call j # rest\<rparr> \<and>
                    set rest \<subseteq> after_start_set \<and>
                    (\<forall>code. r = Inr code \<longrightarrow>
                       respond w (trace s1 @ [Time_sleep 2.5]) (Start_call j) = Inr code)))"
proof -
  from assms obtain r1 s1 where
    A: "CopyDune_preview_start w j tid reps s = Some (r1, s1)" and
    B: "case r1 of Inl e \<Rightarrow> r = Inl e \<and> s' = s1
        | Inr x \<Rightarrow>
           (if reps = 0 then
              bindA (Copy_change_job_state w j ''Start'' ''startProcessing'') (\<lambda>start_state.
              returnA start_state)
            else
              thenA (time_sleep 2.5)
             (bindA (Copy_change_job_state w j ''Start'' ''startProcessing'') (\<lambda>start_state.
              thenA (logging_info ''Waiting for job to be ready'' [])
             (bindA (invoke w (UDW_isMediaLoaded ''ADF'')) (\<lambda>adf_loaded.
              thenA (try_except_TimeoutError
                       (if \<not> truthy adf_loaded
                        then answer_flatbedAddPage w
                        else logging_info ''ADF is loaded, no need to add flatbed page'' [])
                       (logging_info ''flatbed Add page is not available'' []))
                    (returnA start_state)))))) s1 = Some (r, s')"
    unfolding CopyDune_start_def by (blast dest: thenA_SomeD)
  show ?thesis
  proof (cases r1)
    case (Inl e)
    with A B show ?thesis by auto
  next
    case (Inr u)
    with A have A': "CopyDune_preview_start w j tid reps s = Some (Inr (), s1)" by simp
    show ?thesis
    proof (cases "reps = 0")
      case True
      with B Inr have "r = respond w (trace s1) (Start_call j)"
        "s' = s1\<lparr>trace := trace s1 @ [Start_call j]\<rparr>"
        by (auto simp: action_defs Copy_change_job_state_def Start_call_def split: sum.splits)
      with A' True show ?thesis by auto
    next
      case False
      with B Inr have run: "thenA (time_sleep 2.5)
             (bindA (Copy_change_job_state w j ''Start'' ''startProcessing'') (\<lambda>start_state.
              thenA (logging_info ''Waiting for job to be ready'' [])
             (bindA (invoke w (UDW_isMediaLoaded ''ADF'')) (\<lambda>adf_loaded.
              thenA (try_except_TimeoutError
                       (if \<not> truthy adf_loaded
                        then answer_flatbedAddPage w
                        else logging_info ''ADF is loaded, no need to add flatbed page'' [])
                       (logging_info ''flatbed Add page is not available'' []))
                    (returnA start_state))))) s1 = Some (r, s')"
        by simp
      from start_tail_result[where m = "\<lambda>adf_loaded. if \<not> truthy adf_loaded
                        then answer_flatbedAddPage w
                        else logging_info ''ADF is loaded, no need to add flatbed page'' []",
              OF CopyDune_try_body run]
      show ?thesis using A' False by auto
    qed
  qed
qed

text \<open>
  C1. Take any run of \<open>CopyDune.start\<close> that returns or raises, and the calls it made. With
  \<open>preview_reps = 0\<close> none of them is a 'Preview'/'prepareProcessing' state change. If the
  'Start'/'startProcessing' state change is among them, then what precedes it is the wait for
  "ready" followed by exactly \<open>preview_reps\<close> preview iterations (each one the Preview state
  change, the settle delay and the wait for "ready"), and the run makes exactly \<open>preview_reps\<close>
  Preview state changes in all. (A negative \<open>preview_reps\<close> makes \<open>range\<close> empty: no
  iteration.)
\<close>

theorem start_preview_iterations:
  assumes "CopyDune_start w job_id ticket_id preview_reps s = Some (r, s')"
  shows "\<exists>new. trace s' = trace s @ new \<and>
           (preview_reps = 0 \<longrightarrow> Preview_call job_id \<notin> set new) \<and>
           (Start_call job_id \<in> set new \<longrightarrow>
              length (filter (\<lambda>c. c = Preview_call job_id) new) = nat preview_reps \<and>
              (\<exists>n rest.
                 new = ready_wait_calls job_id n @
                       preview_rounds job_id (nat preview_reps) @
                       (if preview_reps = 0 then [] else [Time_sleep 2.5]) @
                       Start_call job_id # rest \<and>
                 Start_call job_id \<notin> set rest \<and> Preview_call job_id \<notin> set rest))"
proof -
  note D = CopyDune_start_SomeD[OF assms]
  from D show ?thesis
  proof
    assume "\<exists>e new. CopyDune_preview_start w job_id ticket_id preview_reps s = Some (Inl e, s') \<and>
              r = Inl e"
    then obtain e where A: "CopyDune_preview_start w job_id ticket_id preview_reps s = Some (Inl e, s')"
      by blast
    from CopyDune_preview_start_result[OF A] obtain new where
      new: "s' = s\<lparr>trace := trace s @ new\<rparr>"
        "set new \<subseteq> ready_wait_set job_id \<union>
           (if preview_reps = 0 then {} else set (preview_round job_id))"
      by auto
    from new(2) have ns: "Start_call job_id \<notin> set new"
      using not_in_ready_wait_set(1)[of job_id] not_in_preview_round(1)[of job_id]
      by (auto split: if_splits)
    from new(2) have np: "preview_reps = 0 \<longrightarrow> Preview_call job_id \<notin> set new"
      using not_in_ready_wait_set(2)[of job_id] by auto
    from new(1) have "trace s' = trace s @ new" by simp
    with ns np show ?thesis by blast
  next
    assume "\<exists>s1. CopyDune_preview_start w job_id ticket_id preview_reps s = Some (Inr (), s1) \<and>
            (if preview_reps = 0
             then r = respond w (trace s1) (Start_call job_id) \<and>
                  s' = s1\<lparr>trace := trace s1 @ [Start_call job_id]\<rparr>
             else \<exists>rest. s' = s1\<lparr>trace := trace s1 @ Time_sleep 2.5 # Start_call job_id # rest\<rparr> \<and>
                    set rest \<subseteq> after_start_set \<and>
                    (\<forall>code. r = Inr code \<longrightarrow>
                       respond w (trace s1 @ [Time_sleep 2.5]) (Start_call job_id) = Inr code))"
    then obtain s1 where
      A: "CopyDune_preview_start w job_id ticket_id preview_reps s = Some (Inr (), s1)" and
      B: "if preview_reps = 0
             then r = respond w (trace s1) (Start_call job_id) \<and>
                  s' = s1\<lparr>trace := trace s1 @ [Start_call job_id]\<rparr>
             else \<exists>rest. s' = s1\<lparr>trace := trace s1 @ Time_sleep 2.5 # Start_call job_id # rest\<rparr> \<and>
                    set rest \<subseteq> after_start_set \<and>
                    (\<forall>code. r = Inr code \<longrightarrow>
                       respond w (trace s1 @ [Time_sleep 2.5]) (Start_call job_id) = Inr code)"
      by blast
    have "\<exists>rest. s' = s1\<lparr>trace := trace s1 @
                 (if preview_reps = 0 then [] else [Time_sleep 2.5]) @
                 Start_call job_id # rest\<rparr> \<and> set rest \<subseteq> after_start_set"
    proof (cases "preview_reps = 0")
      case True
      with B have "s' = s1\<lparr>trace := trace s1 @ [Start_call job_id]\<rparr>" by simp
      with True show ?thesis by (intro exI[of _ "[]"]) simp
    next
      case False
      with B obtain rest where
        "s' = s1\<lparr>trace := trace s1 @ Time_sleep 2.5 # Start_call job_id # rest\<rparr>"
        "set rest \<subseteq> after_start_set"
        by auto
      with False show ?thesis by (intro exI[of _ rest]) simp
    qed
    then obtain rest where
      s': "s' = s1\<lparr>trace := trace s1 @ (if preview_reps = 0 then [] else [Time_sleep 2.5]) @
                                Start_call job_id # rest\<rparr>" and
      rest: "set rest \<subseteq> after_start_set"
      by blast
    from CopyDune_preview_start_result[OF A] obtain n where
      s1: "s1 = s\<lparr>trace := trace s @ ready_wait_calls job_id n @
                              preview_rounds job_id (nat preview_reps)\<rparr>"
      by auto
    let ?new = "ready_wait_calls job_id n @ preview_rounds job_id (nat preview_reps) @
                (if preview_reps = 0 then [] else [Time_sleep 2.5]) @ Start_call job_id # rest"
    from s1 s' have tr: "trace s' = trace s @ ?new" by simp
    from rest have r1: "Start_call job_id \<notin> set rest" "Preview_call job_id \<notin> set rest"
      using not_in_after_start_set[of job_id] by auto
    have rw: "Preview_call job_id \<notin> set (ready_wait_calls job_id n)"
      using set_ready_wait_calls[of job_id n] not_in_ready_wait_set(2)[of job_id] by auto
    have ne: "Time_sleep 2.5 \<noteq> Preview_call job_id" "Start_call job_id \<noteq> Preview_call job_id"
      by (simp_all add: call_names)
    have cnt: "length (filter (\<lambda>c. c = Preview_call job_id) ?new) = nat preview_reps"
      using r1(2) rw ne
      by (simp add: filter_absent count_preview_rounds)
    have np: "preview_reps = 0 \<longrightarrow> Preview_call job_id \<notin> set ?new"
      using r1(2) rw ne by (auto simp: preview_rounds_def)
    from tr cnt np r1 show ?thesis by blast
  qed
qed

lemma Copy_preview_start_world_ready:
  "Copy_preview_start world_ready j tid s =
     Some (Inr (), s\<lparr>trace := trace s @ ready_wait_calls j 0\<rparr>)"
proof (rule Copy_preview_start_ready)
  show "respond world_ready (trace s @ [Starting_log j]) (Initialize_call j) = Inr (PInt 200)"
    by (simp add: world_ready_def Initialize_call_def)
  show "\<forall>k<0. still_waiting world_ready s j k" by simp
  show "in_time world_ready (wait_started world_ready s j) (poll_history s j 0)"
    by (simp add: in_time_def wait_started_def world_ready_def)
  show "polled_state world_ready j (poll_history s j 0) = Inr (PStr ''ready'')"
    by (simp add: polled_state_def world_ready_def)
qed

lemma trace_Copy_init: "trace Copy_init = []"
  by (simp add: Copy_init_def)

lemma world_ready_simps:
  "respond world_ready h (JM_change_job_state a b c d) = Inr (PInt 200)"
  "respond world_ready h (JM_wait_for_job_state a bs) = Inr (PInt 200)"
  "respond world_ready h (UDW_isMediaLoaded a) = Inr (PBool False)"
  "respond world_ready h (JM_wait_for_alerts a) = Inl (Exn ''TimeoutError'' ''no alert'')"
  "respond world_ready h (JT_get_info ''ticket_123'') = Inr jobBuild_ticket"
  "respond world_ready h (CDM_get a) = Inr (PDict [(''copyMode'', PStr ''printWhileScanning'')])"
  "respond world_ready h (JM_wait_for_all_previews_done a) = Inr (PBool True)"
  "respond world_ready h (JM_wait_for_job_processing_sub_status a) = Inr (PInt 200)"
  by (simp_all add: world_ready_def)

lemma CopyDune_start_world_ready:
  "CopyDune_start world_ready ''job_456'' ''ticket_123'' 2 Copy_init =
     Some (Inr (PInt 200),
           Copy_init\<lparr>trace := ready_wait_calls ''job_456'' 0 @ preview_rounds ''job_456'' 2 @
              [Time_sleep 2.5, Start_call ''job_456'', Waiting_log, isMediaLoaded_call,
               Wait_alert_call, No_alert_log]\<rparr>)"
  by (simp add: CopyDune_start_def CopyDune_preview_start_def thenA_def bindA_def
        Copy_preview_start_world_ready numeral_2_eq_2 invoke_def time_sleep_def logging_info_def
        returnA_def Copy_change_job_state_def try_except_TimeoutError_def
        answer_flatbedAddPage_def world_ready_simps preview_rounds_def preview_round_def
        call_names trace_Copy_init)

theorem start_preview_iterations_witness:
  "CopyDune_start world_ready ''job_456'' ''ticket_123'' 2 Copy_init =
     Some (Inr (PInt 200),
           Copy_init\<lparr>trace := ready_wait_calls ''job_456'' 0 @ preview_rounds ''job_456'' 2 @
              [Time_sleep 2.5, Start_call ''job_456'', Waiting_log, isMediaLoaded_call,
               Wait_alert_call, No_alert_log]\<rparr>) \<and>
   Start_call ''job_456'' \<in> set (ready_wait_calls ''job_456'' 0 @ preview_rounds ''job_456'' 2 @
              [Time_sleep 2.5, Start_call ''job_456'', Waiting_log, isMediaLoaded_call,
               Wait_alert_call, No_alert_log]) \<and>
   length (filter (\<lambda>c. c = Preview_call ''job_456'')
             (ready_wait_calls ''job_456'' 0 @ preview_rounds ''job_456'' 2 @
              [Time_sleep 2.5, Start_call ''job_456'', Waiting_log, isMediaLoaded_call,
               Wait_alert_call, No_alert_log])) = 2"
proof -
  let ?new = "ready_wait_calls ''job_456'' 0 @ preview_rounds ''job_456'' 2 @
              [Time_sleep 2.5, Start_call ''job_456'', Waiting_log, isMediaLoaded_call,
               Wait_alert_call, No_alert_log]"
  from start_preview_iterations[OF CopyDune_start_world_ready] obtain new where
    tr: "trace (Copy_init\<lparr>trace := ?new\<rparr>) = trace Copy_init @ new" and
    cnt: "Start_call ''job_456'' \<in> set new \<longrightarrow>
            length (filter (\<lambda>c. c = Preview_call ''job_456'') new) = nat 2"
    by blast
  from tr have new: "new = ?new" by (simp add: trace_Copy_init)
  have mem: "Start_call ''job_456'' \<in> set ?new" by simp
  from cnt new mem have "length (filter (\<lambda>c. c = Preview_call ''job_456'') ?new) = 2"
    by simp
  with mem CopyDune_start_world_ready show ?thesis by blast
qed

subsection \<open>Enterprise start on a fresh instance\<close>

lemma flags_want_alert_trace [simp]:
  "flags_want_alert (s\<lparr>trace := t\<rparr>) = flags_want_alert s"
  by (simp add: flags_want_alert_def)

lemma CopyEnterprise_start_preview_failed:
  assumes "CopyDune_preview_start w j tid reps s = Some (Inl e, s1)"
  shows "CopyEnterprise_start w j tid reps s = Some (Inl e, s1)"
  using assms by (simp add: CopyEnterprise_start_def thenA_def bindA_def)

lemma CopyEnterprise_start_preview_diverges:
  assumes "CopyDune_preview_start w j tid reps s = None"
  shows "CopyEnterprise_start w j tid reps s = None"
  using assms by (simp add: CopyEnterprise_start_def thenA_def bindA_def)

lemma CopyEnterprise_start_no_alert:
  assumes A: "CopyDune_preview_start w j tid 0 s = Some (Inr (), s1)"
    and nf: "\<not> flags_want_alert s1"
  shows "CopyEnterprise_start w j tid 0 s =
     Some (case respond w (trace s1 @ [Time_sleep 2.5]) (Start_call j) of
             Inl e \<Rightarrow> (Inl e, s1\<lparr>trace := trace s1 @ [Time_sleep 2.5, Start_call j]\<rparr>)
           | Inr code \<Rightarrow>
               (case respond w (trace s1 @ [Time_sleep 2.5, Start_call j, Waiting_log])
                       isMediaLoaded_call of
                  Inl e \<Rightarrow> (Inl e, s1\<lparr>trace := trace s1 @
                              [Time_sleep 2.5, Start_call j, Waiting_log, isMediaLoaded_call]\<rparr>)
                | Inr adf \<Rightarrow> (Inr code, s1\<lparr>trace := trace s1 @
                              [Time_sleep 2.5, Start_call j, Waiting_log, isMediaLoaded_call]\<rparr>)))"
  using A nf
  by (simp add: CopyEnterprise_start_def thenA_def bindA_def time_sleep_def invoke_def
        logging_info_def returnA_def Copy_change_job_state_def try_except_TimeoutError_def
        call_names split: sum.splits)

lemma CopyEnterprise_start_no_alert_calls:
  assumes run: "CopyEnterprise_start w j tid 0 s =
     Some (case respond w (trace s1 @ [Time_sleep 2.5]) (Start_call j) of
             Inl e \<Rightarrow> (Inl e, s1\<lparr>trace := trace s1 @ [Time_sleep 2.5, Start_call j]\<rparr>)
           | Inr code \<Rightarrow>
               (case respond w (trace s1 @ [Time_sleep 2.5, Start_call j, Waiting_log])
                       isMediaLoaded_call of
                  Inl e \<Rightarrow> (Inl e, s1\<lparr>trace := trace s1 @
                              [Time_sleep 2.5, Start_call j, Waiting_log, isMediaLoaded_call]\<rparr>)
                | Inr adf \<Rightarrow> (Inr code, s1\<lparr>trace := trace s1 @
                              [Time_sleep 2.5, Start_call j, Waiting_log, isMediaLoaded_call]\<rparr>)))"
    and a3: "CopyEnterprise_start w j tid 0 s = Some (r, s')"
  shows "\<exists>tl. trace s' = trace s1 @ tl \<and> Wait_alert_call \<notin> set tl \<and>
           (\<forall>code adf.
              respond w (trace s1 @ [Time_sleep 2.5]) (Start_call j) = Inr code \<and>
              respond w (trace s1 @ [Time_sleep 2.5, Start_call j, Waiting_log])
                isMediaLoaded_call = Inr adf \<longrightarrow>
              r = Inr code \<and>
              tl = [Time_sleep 2.5, Start_call j, Waiting_log, isMediaLoaded_call])"
proof -
  have ne: "Wait_alert_call \<noteq> Time_sleep 2.5" "Wait_alert_call \<noteq> Start_call j"
      "Wait_alert_call \<noteq> Waiting_log" "Wait_alert_call \<noteq> isMediaLoaded_call"
      by (simp_all add: call_names)
  show ?thesis
  proof (cases "respond w (trace s1 @ [Time_sleep 2.5]) (Start_call j)")
    case (Inl e)
    from run a3 Inl have "s' = s1\<lparr>trace := trace s1 @ [Time_sleep 2.5, Start_call j]\<rparr>"
      by simp
    then have tr: "trace s' = trace s1 @ [Time_sleep 2.5, Start_call j]" by simp
    from tr Inl ne show ?thesis
      by (intro exI[of _ "[Time_sleep 2.5, Start_call j]"]) simp
  next
    case code: (Inr code)
    show ?thesis
    proof (cases "respond w (trace s1 @ [Time_sleep 2.5, Start_call j, Waiting_log])
                    isMediaLoaded_call")
      case (Inl e)
      from code Inl run a3 have "s' = s1\<lparr>trace := trace s1 @
          [Time_sleep 2.5, Start_call j, Waiting_log, isMediaLoaded_call]\<rparr>"
        by simp
      then have tr: "trace s' = trace s1 @
          [Time_sleep 2.5, Start_call j, Waiting_log, isMediaLoaded_call]" by simp
      from tr Inl ne show ?thesis
        by (intro exI[of _ "[Time_sleep 2.5, Start_call j, Waiting_log, isMediaLoaded_call]"])
           simp
    next
      case (Inr adf)
      from code Inr run a3 have "s' = s1\<lparr>trace := trace s1 @
          [Time_sleep 2.5, Start_call j, Waiting_log, isMediaLoaded_call]\<rparr>" "r = Inr code"
        by simp_all
      then have tr: "trace s' = trace s1 @
          [Time_sleep 2.5, Start_call j, Waiting_log, isMediaLoaded_call]" "r = Inr code"
        by simp_all
      from tr code Inr ne show ?thesis
        by (intro exI[of _ "[Time_sleep 2.5, Start_call j, Waiting_log, isMediaLoaded_call]"])
           simp
    qed
  qed
qed

text \<open>
  C10. On an enterprise orchestrator whose flags \<open>_adf_loaded\<close> and \<open>_output_duplex\<close> still hold
  the constructor's \<open>None\<close> (no \<open>create_ticket\<close> has run), \<open>start\<close> with \<open>preview_reps = 0\<close>
  never calls \<open>wait_for_alerts("flatbedAddPage")\<close>, whatever the device answers and however
  the run ends. When the job reaches "ready", the Start state change returns a status code
  and the media query returns, \<open>start\<close> returns that status code, and the media query is its
  last call.
\<close>

theorem enterprise_start_without_ticket:
  assumes "adf_loaded s = None" and "output_duplex s = None"
    and "CopyEnterprise_start w job_id ticket_id 0 s = Some (r, s')"
  shows "\<exists>new. trace s' = trace s @ new \<and> Wait_alert_call \<notin> set new \<and>
           (\<forall>s1 code adf.
              CopyDune_preview_start w job_id ticket_id 0 s = Some (Inr (), s1) \<and>
              respond w (trace s1 @ [Time_sleep 2.5]) (Start_call job_id) = Inr code \<and>
              respond w (trace s1 @ [Time_sleep 2.5, Start_call job_id, Waiting_log])
                isMediaLoaded_call = Inr adf \<longrightarrow>
              r = Inr code \<and>
              trace s' = trace s1 @
                [Time_sleep 2.5, Start_call job_id, Waiting_log, isMediaLoaded_call])"
proof (cases "CopyDune_preview_start w job_id ticket_id 0 s")
  case None
  from CopyEnterprise_start_preview_diverges[OF None] assms(3) show ?thesis by simp
next
  case (Some y)
  obtain r1 s1 where y: "y = (r1, s1)" by (cases y)
  with Some have A: "CopyDune_preview_start w job_id ticket_id 0 s = Some (r1, s1)" by simp
  show ?thesis
  proof (cases r1)
    case (Inl e)
    with A have Ae: "CopyDune_preview_start w job_id ticket_id 0 s = Some (Inl e, s1)" by simp
    from CopyEnterprise_start_preview_failed[OF Ae] assms(3)
    have s': "s' = s1" by simp
    from CopyDune_preview_start_result[OF Ae] obtain new where
      new: "s1 = s\<lparr>trace := trace s @ new\<rparr>" "set new \<subseteq> ready_wait_set job_id"
      by auto
    from new(2) have nw: "Wait_alert_call \<notin> set new"
      using not_in_ready_wait_set(3)[of job_id] by auto
    from new(1) s' have tr: "trace s' = trace s @ new" by simp
    show ?thesis
    proof (intro exI[of _ new] conjI allI impI)
      show "trace s' = trace s @ new" by (rule tr)
      show "Wait_alert_call \<notin> set new" by (rule nw)
    next
      fix s1a code adf
      assume "CopyDune_preview_start w job_id ticket_id 0 s = Some (Inr (), s1a) \<and>
              respond w (trace s1a @ [Time_sleep 2.5]) (Start_call job_id) = Inr code \<and>
              respond w (trace s1a @ [Time_sleep 2.5, Start_call job_id, Waiting_log])
                isMediaLoaded_call = Inr adf"
      with Ae have False by simp
      then show "r = Inr code" "trace s' = trace s1a @
                [Time_sleep 2.5, Start_call job_id, Waiting_log, isMediaLoaded_call]"
        by simp_all
    qed
  next
    case (Inr u)
    with A have A': "CopyDune_preview_start w job_id ticket_id 0 s = Some (Inr (), s1)" by simp
    from CopyDune_preview_start_result[OF A'] obtain n where
      s1: "s1 = s\<lparr>trace := trace s @ ready_wait_calls job_id n @ preview_rounds job_id (nat 0)\<rparr>"
      by auto
    then have s1': "s1 = s\<lparr>trace := trace s @ ready_wait_calls job_id n\<rparr>"
      by (simp add: preview_rounds_def)
    with assms(2) have nf: "\<not> flags_want_alert s1" by (simp add: flags_want_alert_def)
    note run = CopyEnterprise_start_no_alert[OF A' nf]
    have rw: "Wait_alert_call \<notin> set (ready_wait_calls job_id n)"
      using set_ready_wait_calls[of job_id n] not_in_ready_wait_set(3)[of job_id] by auto
    let ?full = "[Time_sleep 2.5, Start_call job_id, Waiting_log, isMediaLoaded_call]"
    note tail = CopyEnterprise_start_no_alert_calls[OF run assms(3)]
    from tail obtain tl where T: "trace s' = trace s1 @ tl \<and> Wait_alert_call \<notin> set tl \<and>
           (\<forall>code adf.
              respond w (trace s1 @ [Time_sleep 2.5]) (Start_call job_id) = Inr code \<and>
              respond w (trace s1 @ [Time_sleep 2.5, Start_call job_id, Waiting_log])
                isMediaLoaded_call = Inr adf \<longrightarrow>
              r = Inr code \<and>
              tl = [Time_sleep 2.5, Start_call job_id, Waiting_log, isMediaLoaded_call])" ..
    from T have tl: "trace s' = trace s1 @ tl" "Wait_alert_call \<notin> set tl"
      by (rule conjunct1, rule conjunct1[OF conjunct2])
    from T have tl3': "\<forall>code adf.
              respond w (trace s1 @ [Time_sleep 2.5]) (Start_call job_id) = Inr code \<and>
              respond w (trace s1 @ [Time_sleep 2.5, Start_call job_id, Waiting_log])
                isMediaLoaded_call = Inr adf \<longrightarrow>
              r = Inr code \<and>
              tl = [Time_sleep 2.5, Start_call job_id, Waiting_log, isMediaLoaded_call]"
      by (rule conjunct2[OF conjunct2])
    show ?thesis
    proof (intro exI[of _ "ready_wait_calls job_id n @ tl"] conjI allI impI)
      show "trace s' = trace s @ ready_wait_calls job_id n @ tl"
        using tl(1) s1' by simp
      show "Wait_alert_call \<notin> set (ready_wait_calls job_id n @ tl)"
        using rw tl(2) by simp
    next
      fix s1a code adf
      assume H: "CopyDune_preview_start w job_id ticket_id 0 s = Some (Inr (), s1a) \<and>
              respond w (trace s1a @ [Time_sleep 2.5]) (Start_call job_id) = Inr code \<and>
              respond w (trace s1a @ [Time_sleep 2.5, Start_call job_id, Waiting_log])
                isMediaLoaded_call = Inr adf"
      with A' have eq: "s1a = s1" by simp
      from H eq have "respond w (trace s1 @ [Time_sleep 2.5]) (Start_call job_id) = Inr code \<and>
        respond w (trace s1 @ [Time_sleep 2.5, Start_call job_id, Waiting_log])
                isMediaLoaded_call = Inr adf"
        by simp
      with tl3' have "r = Inr code \<and> tl = ?full" by blast
      with tl(1) eq
      show "r = Inr code" "trace s' = trace s1a @ ?full" by simp_all
    qed
  qed
qed

lemma CopyDune_preview_start_world_ready_0:
  "CopyDune_preview_start world_ready j tid 0 s =
     Some (Inr (), s\<lparr>trace := trace s @ ready_wait_calls j 0\<rparr>)"
  by (simp add: CopyDune_preview_start_def thenA_def bindA_def Copy_preview_start_world_ready
        returnA_def)

lemma CopyEnterprise_start_world_ready_0:
  "CopyEnterprise_start world_ready ''job_456'' ''ticket_123'' 0 Copy_init =
     Some (Inr (PInt 200),
           Copy_init\<lparr>trace := ready_wait_calls ''job_456'' 0 @
              [Time_sleep 2.5, Start_call ''job_456'', Waiting_log, isMediaLoaded_call]\<rparr>)"
proof -
  have nf: "\<not> flags_want_alert (Copy_init\<lparr>trace := trace Copy_init @
                                      ready_wait_calls ''job_456'' 0\<rparr>)"
    by (simp add: flags_want_alert_def Copy_init_def)
  show ?thesis
    by (simp add: CopyEnterprise_start_no_alert[OF CopyDune_preview_start_world_ready_0 nf]
          world_ready_simps Start_call_def isMediaLoaded_call_def trace_Copy_init)
qed

theorem enterprise_start_without_ticket_witness:
  "adf_loaded Copy_init = None \<and> output_duplex Copy_init = None \<and>
   CopyEnterprise_start world_ready ''job_456'' ''ticket_123'' 0 Copy_init =
     Some (Inr (PInt 200),
           Copy_init\<lparr>trace := ready_wait_calls ''job_456'' 0 @
              [Time_sleep 2.5, Start_call ''job_456'', Waiting_log, isMediaLoaded_call]\<rparr>) \<and>
   respond world_ready
     (ready_wait_calls ''job_456'' 0 @ [Time_sleep 2.5, Start_call ''job_456'', Waiting_log])
     isMediaLoaded_call = Inr (PBool False) \<and>
   Wait_alert_call \<notin> set (ready_wait_calls ''job_456'' 0 @
              [Time_sleep 2.5, Start_call ''job_456'', Waiting_log, isMediaLoaded_call])"
proof -
  have f: "adf_loaded Copy_init = None" "output_duplex Copy_init = None"
    by (simp_all add: Copy_init_def)
  from enterprise_start_without_ticket[OF f CopyEnterprise_start_world_ready_0]
  have "\<exists>new. trace (Copy_init\<lparr>trace := ready_wait_calls ''job_456'' 0 @
              [Time_sleep 2.5, Start_call ''job_456'', Waiting_log, isMediaLoaded_call]\<rparr>) =
        trace Copy_init @ new \<and> Wait_alert_call \<notin> set new"
    by (elim exE conjE) (intro exI conjI, assumption+)
  then obtain new where N1: "trace (Copy_init\<lparr>trace := ready_wait_calls ''job_456'' 0 @
              [Time_sleep 2.5, Start_call ''job_456'', Waiting_log, isMediaLoaded_call]\<rparr>) =
        trace Copy_init @ new" and N2: "Wait_alert_call \<notin> set new"
    by (elim exE conjE)
  from N1 have "new = ready_wait_calls ''job_456'' 0 @
              [Time_sleep 2.5, Start_call ''job_456'', Waiting_log, isMediaLoaded_call]"
    by (simp add: trace_Copy_init)
  with N2 have "Wait_alert_call \<notin> set (ready_wait_calls ''job_456'' 0 @
              [Time_sleep 2.5, Start_call ''job_456'', Waiting_log, isMediaLoaded_call])"
    by simp
  moreover have "respond world_ready
     (ready_wait_calls ''job_456'' 0 @ [Time_sleep 2.5, Start_call ''job_456'', Waiting_log])
     isMediaLoaded_call = Inr (PBool False)"
    by (simp add: world_ready_simps isMediaLoaded_call_def)
  ultimately show ?thesis
    using f CopyEnterprise_start_world_ready_0 by simp
qed

subsection \<open>The two-segment pipeline of the designjet family\<close>

lemmas designjet_calls = Prepare_call_def Wait_processing_call_def Previews_done_call_def
  Copy_configuration_call_def Printing_log_def Wait_printing_call_def

lemma reads_jobBuild_world_ready: "reads_jobBuild world_ready h ''ticket_123''"
  by (simp add: reads_jobBuild_def world_ready_simps jobBuild_ticket_def)

lemma reported_copy_mode_world_ready:
  "reported_copy_mode world_ready h = Inr (PStr ''printWhileScanning'')"
  by (simp add: reported_copy_mode_def Copy_configuration_call_def world_ready_simps)

text \<open>
  C5. \<open>CopyDesignJet.start\<close> first waits for "ready" through the inherited \<open>preview_start\<close>
  (with no preview repetition, whatever \<open>preview_reps\<close> is). Once that wait has succeeded,
  for a ticket id that is not empty and a ticket that reads \<open>scanCaptureMode == "jobBuild"\<close>,
  \<open>start\<close> is exactly this sequence, for every device. It issues the
  'Prepare_Processing'/'prepareProcessing' state change and fails with \<open>AssertionError\<close> unless
  the answer is 200; it waits for the "processing" state; it waits for all previews and fails
  with \<open>AssertionError\<close> unless the answer is true; it reads the copy configuration and its
  \<open>copyMode\<close>; exactly if that equals "printWhileScanning" it logs and waits for the "printing"
  sub-status; then it issues the 'Start'/'startProcessing' state change and returns that
  call's answer. An exception raised by one of these calls ends \<open>start\<close> with that exception,
  with no further call made; otherwise the Start state change is always issued, last.
\<close>

theorem designjet_two_segment_order:
  assumes ready: "CopyDune_preview_start w job_id ticket_id 0 s = Some (Inr (), s1)"
    and nonempty: "ticket_id \<noteq> []"
    and jobBuild: "reads_jobBuild w (trace s1) ticket_id"
  shows "CopyDesignJet_start w job_id ticket_id preview_reps s =
     (case respond w (trace s1 @ [JT_get_info ticket_id]) (Prepare_call job_id) of
        Inl e \<Rightarrow>
          Some (Inl e, s1\<lparr>trace := trace s1 @ [JT_get_info ticket_id, Prepare_call job_id]\<rparr>)
      | Inr status \<Rightarrow>
          if status \<noteq> PInt 200
          then Some (Inl (Exn ''AssertionError'' []),
                     s1\<lparr>trace := trace s1 @ [JT_get_info ticket_id, Prepare_call job_id]\<rparr>)
          else
         (case respond w (trace s1 @ [JT_get_info ticket_id, Prepare_call job_id])
                 (Wait_processing_call job_id) of
            Inl e \<Rightarrow>
              Some (Inl e, s1\<lparr>trace := trace s1 @
                      [JT_get_info ticket_id, Prepare_call job_id,
                       Wait_processing_call job_id]\<rparr>)
          | Inr st \<Rightarrow>
         (case respond w (trace s1 @ [JT_get_info ticket_id, Prepare_call job_id,
                                      Wait_processing_call job_id])
                 (Previews_done_call job_id) of
            Inl e \<Rightarrow>
              Some (Inl e, s1\<lparr>trace := trace s1 @
                      [JT_get_info ticket_id, Prepare_call job_id,
                       Wait_processing_call job_id, Previews_done_call job_id]\<rparr>)
          | Inr result \<Rightarrow>
              if \<not> truthy result
              then Some (Inl (Exn ''AssertionError'' ''Preview jobs did not finish successfully''),
                         s1\<lparr>trace := trace s1 @
                           [JT_get_info ticket_id, Prepare_call job_id,
                            Wait_processing_call job_id, Previews_done_call job_id]\<rparr>)
              else
         (case reported_copy_mode w
                 (trace s1 @ [JT_get_info ticket_id, Prepare_call job_id,
                              Wait_processing_call job_id, Previews_done_call job_id]) of
            Inl e \<Rightarrow>
              Some (Inl e, s1\<lparr>trace := trace s1 @
                      JT_get_info ticket_id # two_segment_calls job_id\<rparr>)
          | Inr mode \<Rightarrow>
              if mode = PStr ''printWhileScanning''
              then
              (case respond w (trace s1 @ JT_get_info ticket_id # two_segment_calls job_id @
                                 [Printing_log])
                      Wait_printing_call of
                 Inl e \<Rightarrow>
                   Some (Inl e, s1\<lparr>trace := trace s1 @ JT_get_info ticket_id #
                           two_segment_calls job_id @ [Printing_log, Wait_printing_call]\<rparr>)
               | Inr u \<Rightarrow>
                   Some (respond w (trace s1 @ JT_get_info ticket_id #
                                      two_segment_calls job_id @
                                      [Printing_log, Wait_printing_call])
                           (Start_call job_id),
                         s1\<lparr>trace := trace s1 @ JT_get_info ticket_id #
                           two_segment_calls job_id @
                           [Printing_log, Wait_printing_call, Start_call job_id]\<rparr>))
              else Some (respond w (trace s1 @ JT_get_info ticket_id #
                                      two_segment_calls job_id)
                           (Start_call job_id),
                         s1\<lparr>trace := trace s1 @ JT_get_info ticket_id #
                           two_segment_calls job_id @ [Start_call job_id]\<rparr>)))))"
  using ready nonempty jobBuild
  by (simp add: CopyDesignJet_start_def Copy_has_two_segment_pipeline_unfold thenA_def bindA_def
        invoke_def logging_info_def returnA_def raiseA_def liftA_def py_assert_def
        Copy_change_job_state_def Copy_wait_for_state_def Copy_get_copy_configuration_def
        reported_copy_mode_def two_segment_calls_def designjet_calls Start_call_def
        split: sum.splits)

theorem designjet_two_segment_order_witness:
  "CopyDune_preview_start world_ready ''job_456'' ''ticket_123'' 0 Copy_init =
     Some (Inr (), Copy_init\<lparr>trace := trace Copy_init @ ready_wait_calls ''job_456'' 0\<rparr>) \<and>
   ''ticket_123'' \<noteq> [] \<and>
   reads_jobBuild world_ready
     (trace (Copy_init\<lparr>trace := trace Copy_init @ ready_wait_calls ''job_456'' 0\<rparr>))
     ''ticket_123'' \<and>
   CopyDesignJet_start world_ready ''job_456'' ''ticket_123'' 3 Copy_init =
     Some (Inr (PInt 200),
           Copy_init\<lparr>trace := ready_wait_calls ''job_456'' 0 @ JT_get_info ''ticket_123'' #
              two_segment_calls ''job_456'' @
              [Printing_log, Wait_printing_call, Start_call ''job_456'']\<rparr>)"
proof -
  have t: "''ticket_123'' \<noteq> []" by simp
  have run: "CopyDesignJet_start world_ready ''job_456'' ''ticket_123'' 3 Copy_init =
     Some (Inr (PInt 200),
           Copy_init\<lparr>trace := ready_wait_calls ''job_456'' 0 @ JT_get_info ''ticket_123'' #
              two_segment_calls ''job_456'' @
              [Printing_log, Wait_printing_call, Start_call ''job_456'']\<rparr>)"
    by (simp add: designjet_two_segment_order[OF CopyDune_preview_start_world_ready_0 t
                    reads_jobBuild_world_ready]
          reported_copy_mode_world_ready world_ready_simps designjet_calls Start_call_def
          trace_Copy_init two_segment_calls_def)
  from run CopyDune_preview_start_world_ready_0 t reads_jobBuild_world_ready
  show ?thesis by simp
qed
subsection \<open>The flatbed alert after Start\<close>

lemma CopyEnterprise_try_unfold:
  "try_except_TimeoutError
     (\<lambda>s. (if reps = 0 then
              (if flags_want_alert s then answer_flatbedAddPage w else returnA ())
            else if \<not> truthy adf then answer_flatbedAddPage w
            else logging_info ''ADF is loaded, no need to add flatbed page'' []) s)
     (logging_info ''flatbed Add page is not available'' []) s2 =
   (if reps = 0 then
      (if flags_want_alert s2
       then try_except_TimeoutError (answer_flatbedAddPage w)
              (logging_info ''flatbed Add page is not available'' []) s2
       else Some (Inr (), s2))
    else if \<not> truthy adf
    then try_except_TimeoutError (answer_flatbedAddPage w)
           (logging_info ''flatbed Add page is not available'' []) s2
    else Some (Inr (), s2\<lparr>trace := trace s2 @ [ADF_loaded_log]\<rparr>))"
  by (simp add: try_except_TimeoutError_def returnA_def logging_info_def ADF_loaded_log_def)

lemma CopyDune_start_direct:
  assumes A: "CopyDune_preview_start w j tid 0 s = Some (Inr (), s1)"
  shows "CopyDune_start w j tid 0 s =
           Some (respond w (trace s1) (Start_call j), s1\<lparr>trace := trace s1 @ [Start_call j]\<rparr>)"
  using A
  by (simp add: CopyDune_start_def thenA_def bindA_def invoke_def returnA_def
        Copy_change_job_state_def Start_call_def split: sum.splits)

lemma CopyDune_start_alert:
  assumes A: "CopyDune_preview_start w j tid reps s = Some (Inr (), s1)"
    and reps: "reps \<noteq> 0"
    and code: "respond w (trace s1 @ [Time_sleep 2.5]) (Start_call j) = Inr code"
    and adf: "respond w (trace s1 @ [Time_sleep 2.5, Start_call j, Waiting_log])
                isMediaLoaded_call = Inr adf"
  shows "CopyDune_start w j tid reps s =
           flatbed_alert_outcome w code (\<not> truthy adf) True
             (s1\<lparr>trace := trace s1 @
                  [Time_sleep 2.5, Start_call j, Waiting_log, isMediaLoaded_call]\<rparr>)"
proof -
  let ?s2 = "s1\<lparr>trace := trace s1 @
                  [Time_sleep 2.5, Start_call j, Waiting_log, isMediaLoaded_call]\<rparr>"
  from A reps code adf have "CopyDune_start w j tid reps s =
      (case try_except_TimeoutError
              (if \<not> truthy adf then answer_flatbedAddPage w
               else logging_info ''ADF is loaded, no need to add flatbed page'' [])
              (logging_info ''flatbed Add page is not available'' []) ?s2 of
         None \<Rightarrow> None
       | Some (Inl e, s') \<Rightarrow> Some (Inl e, s')
       | Some (Inr u, s') \<Rightarrow> Some (Inr code, s'))"
    by (simp add: CopyDune_start_def thenA_def bindA_def invoke_def returnA_def
          time_sleep_def logging_info_def Copy_change_job_state_def call_names
          split: option.splits sum.splits prod.splits)
  then show ?thesis
    by (cases "truthy adf")
       (simp_all add: try_alert_unfold try_log_unfold flatbed_alert_outcome_def ADF_loaded_log_def
          split: sum.splits)
qed

lemma CopyEnterprise_start_alert:
  assumes A: "CopyDune_preview_start w j tid reps s = Some (Inr (), s1)"
    and code: "respond w (trace s1 @ [Time_sleep 2.5]) (Start_call j) = Inr code"
    and adf: "respond w (trace s1 @ [Time_sleep 2.5, Start_call j, Waiting_log])
                isMediaLoaded_call = Inr adf"
  shows "CopyEnterprise_start w j tid reps s =
           flatbed_alert_outcome w code
             (if reps = 0 then flags_want_alert s1 else \<not> truthy adf) (reps \<noteq> 0)
             (s1\<lparr>trace := trace s1 @
                  [Time_sleep 2.5, Start_call j, Waiting_log, isMediaLoaded_call]\<rparr>)"
proof -
  let ?s2 = "s1\<lparr>trace := trace s1 @
                  [Time_sleep 2.5, Start_call j, Waiting_log, isMediaLoaded_call]\<rparr>"
  from A code adf have "CopyEnterprise_start w j tid reps s =
      (case try_except_TimeoutError
              (\<lambda>s. (if reps = 0 then
                      (if flags_want_alert s then answer_flatbedAddPage w else returnA ())
                    else if \<not> truthy adf then answer_flatbedAddPage w
                    else logging_info ''ADF is loaded, no need to add flatbed page'' []) s)
              (logging_info ''flatbed Add page is not available'' []) ?s2 of
         None \<Rightarrow> None
       | Some (Inl e, s') \<Rightarrow> Some (Inl e, s')
       | Some (Inr u, s') \<Rightarrow> Some (Inr code, s'))"
    by (simp add: CopyEnterprise_start_def thenA_def bindA_def invoke_def returnA_def
          time_sleep_def logging_info_def Copy_change_job_state_def call_names
          split: option.splits sum.splits prod.splits)
  then show ?thesis
    unfolding CopyEnterprise_try_unfold
    by (simp add: try_alert_unfold flatbed_alert_outcome_def split: sum.splits)
qed

lemma CopyDune_preview_start_flags:
  assumes "CopyDune_preview_start w j tid reps s = Some (r, s1)"
  shows "adf_loaded s1 = adf_loaded s \<and> output_duplex s1 = output_duplex s"
  using CopyDune_preview_start_result[OF assms] by auto

text \<open>
  C6, as stated, fails in both of its conditions. On the device that reports the feeder as not
  loaded, for an instance that recorded a flatbed job: \<open>CopyDune.start\<close> with
  \<open>preview_reps = 0\<close> returns the Start status code without waiting for any alert; and
  \<open>CopyEnterprise.start\<close> with \<open>preview_reps = 1\<close> waits for the alert although no duplex
  output was requested.
\<close>

theorem flatbed_alert_counterexample:
  "adf_loaded flatbed_simplex_instance = Some False \<and>
   output_duplex flatbed_simplex_instance = None \<and>
   respond world_ready (ready_wait_calls ''job_456'' 0 @ [Start_call ''job_456''])
     isMediaLoaded_call = Inr (PBool False) \<and>
   CopyDune_start world_ready ''job_456'' ''ticket_123'' 0 flatbed_simplex_instance =
     Some (Inr (PInt 200),
           flatbed_simplex_instance\<lparr>trace := ready_wait_calls ''job_456'' 0 @
              [Start_call ''job_456'']\<rparr>) \<and>
   Wait_alert_call \<notin> set (ready_wait_calls ''job_456'' 0 @ [Start_call ''job_456'']) \<and>
   CopyEnterprise_start world_ready ''job_456'' ''ticket_123'' 1 flatbed_simplex_instance =
     Some (Inr (PInt 200),
           flatbed_simplex_instance\<lparr>trace := ready_wait_calls ''job_456'' 0 @
              preview_rounds ''job_456'' 1 @
              [Time_sleep 2.5, Start_call ''job_456'', Waiting_log, isMediaLoaded_call,
               Wait_alert_call, No_alert_log]\<rparr>)"
proof -
  have tr: "trace flatbed_simplex_instance = []"
    by (simp add: flatbed_simplex_instance_def Copy_init_def)
  have f: "adf_loaded flatbed_simplex_instance = Some False"
    "output_duplex flatbed_simplex_instance = None"
    by (simp_all add: flatbed_simplex_instance_def Copy_init_def)
  have m: "respond world_ready (ready_wait_calls ''job_456'' 0 @ [Start_call ''job_456''])
     isMediaLoaded_call = Inr (PBool False)"
    by (simp add: world_ready_simps isMediaLoaded_call_def)
  have d: "CopyDune_start world_ready ''job_456'' ''ticket_123'' 0 flatbed_simplex_instance =
     Some (Inr (PInt 200),
           flatbed_simplex_instance\<lparr>trace := ready_wait_calls ''job_456'' 0 @
              [Start_call ''job_456'']\<rparr>)"
    by (simp add: CopyDune_start_direct[OF CopyDune_preview_start_world_ready_0]
          world_ready_simps Start_call_def tr)
  have nw: "Wait_alert_call \<notin> set (ready_wait_calls ''job_456'' 0 @ [Start_call ''job_456''])"
    using set_ready_wait_calls[of "''job_456''" 0] not_in_ready_wait_set(3)[of "''job_456''"]
    by (auto simp: call_names)
  have p1: "CopyDune_preview_start world_ready ''job_456'' ''ticket_123'' 1 flatbed_simplex_instance =
     Some (Inr (), flatbed_simplex_instance\<lparr>trace := ready_wait_calls ''job_456'' 0 @
              preview_rounds ''job_456'' 1\<rparr>)"
    by (simp add: CopyDune_preview_start_def thenA_def bindA_def Copy_preview_start_world_ready
          invoke_def time_sleep_def logging_info_def returnA_def world_ready_simps
          preview_rounds_def preview_round_def Preview_call_def tr)
  have e: "CopyEnterprise_start world_ready ''job_456'' ''ticket_123'' 1 flatbed_simplex_instance =
     Some (Inr (PInt 200),
           flatbed_simplex_instance\<lparr>trace := ready_wait_calls ''job_456'' 0 @
              preview_rounds ''job_456'' 1 @
              [Time_sleep 2.5, Start_call ''job_456'', Waiting_log, isMediaLoaded_call,
               Wait_alert_call, No_alert_log]\<rparr>)"
    by (subst CopyEnterprise_start_alert[OF p1, of "PInt 200" "PBool False"])
       (simp_all add: world_ready_simps Start_call_def isMediaLoaded_call_def
          flatbed_alert_outcome_def Wait_alert_call_def)
  from f m d nw e show ?thesis by simp
qed

text \<open>
  C6, amended. Take a run of \<open>start\<close> in which the job has reached "ready" (with its preview
  iterations done), the Start state change has returned a status code and, where it is asked,
  the media query has returned. \<open>CopyDune.start\<close> with \<open>preview_reps = 0\<close> returns the Start
  answer at once: no alert wait. \<open>CopyDune.start\<close> with \<open>preview_reps \<noteq> 0\<close> waits for the
  "flatbedAddPage" alert exactly if the device reports the feeder as not loaded.
  \<open>CopyEnterprise.start\<close> with \<open>preview_reps \<noteq> 0\<close> does the same; with \<open>preview_reps = 0\<close> it
  waits exactly if the instance's \<open>_adf_loaded\<close> flag is not true and its \<open>_output_duplex\<close>
  flag is \<open>True\<close>. Whenever \<open>start\<close> waits, it answers the alert with "Response_02", and a
  \<open>TimeoutError\<close> raised by the wait or by the answer is caught and logged: \<open>start\<close> still
  returns the status code of the Start state change.
\<close>

theorem flatbed_alert_after_start:
  assumes "CopyDune_preview_start w job_id ticket_id preview_reps s = Some (Inr (), s1)"
  shows "(preview_reps = 0 \<longrightarrow>
            CopyDune_start w job_id ticket_id preview_reps s =
              Some (respond w (trace s1) (Start_call job_id),
                    s1\<lparr>trace := trace s1 @ [Start_call job_id]\<rparr>)) \<and>
         (\<forall>code adf.
            respond w (trace s1 @ [Time_sleep 2.5]) (Start_call job_id) = Inr code \<and>
            respond w (trace s1 @ [Time_sleep 2.5, Start_call job_id, Waiting_log])
              isMediaLoaded_call = Inr adf \<longrightarrow>
            (preview_reps \<noteq> 0 \<longrightarrow>
               CopyDune_start w job_id ticket_id preview_reps s =
                 flatbed_alert_outcome w code (\<not> truthy adf) True
                   (s1\<lparr>trace := trace s1 @
                      [Time_sleep 2.5, Start_call job_id, Waiting_log, isMediaLoaded_call]\<rparr>)) \<and>
            CopyEnterprise_start w job_id ticket_id preview_reps s =
              flatbed_alert_outcome w code
                (if preview_reps = 0
                 then adf_loaded s \<noteq> Some True \<and> output_duplex s = Some True
                 else \<not> truthy adf)
                (preview_reps \<noteq> 0)
                (s1\<lparr>trace := trace s1 @
                   [Time_sleep 2.5, Start_call job_id, Waiting_log, isMediaLoaded_call]\<rparr>))"
proof (intro conjI allI impI)
  assume "preview_reps = 0"
  with assms show "CopyDune_start w job_id ticket_id preview_reps s =
              Some (respond w (trace s1) (Start_call job_id),
                    s1\<lparr>trace := trace s1 @ [Start_call job_id]\<rparr>)"
    using CopyDune_start_direct[of w job_id ticket_id s s1] by simp
next
  fix code adf
  assume H: "respond w (trace s1 @ [Time_sleep 2.5]) (Start_call job_id) = Inr code \<and>
            respond w (trace s1 @ [Time_sleep 2.5, Start_call job_id, Waiting_log])
              isMediaLoaded_call = Inr adf"
  assume "preview_reps \<noteq> 0"
  from CopyDune_start_alert[OF assms this conjunct1[OF H] conjunct2[OF H]]
  show "CopyDune_start w job_id ticket_id preview_reps s =
                 flatbed_alert_outcome w code (\<not> truthy adf) True
                   (s1\<lparr>trace := trace s1 @
                      [Time_sleep 2.5, Start_call job_id, Waiting_log, isMediaLoaded_call]\<rparr>)" .
next
  fix code adf
  assume H: "respond w (trace s1 @ [Time_sleep 2.5]) (Start_call job_id) = Inr code \<and>
            respond w (trace s1 @ [Time_sleep 2.5, Start_call job_id, Waiting_log])
              isMediaLoaded_call = Inr adf"
  have fl: "flags_want_alert s1 = (adf_loaded s \<noteq> Some True \<and> output_duplex s = Some True)"
    using CopyDune_preview_start_flags[OF assms] by (simp add: flags_want_alert_def)
  from CopyEnterprise_start_alert[OF assms conjunct1[OF H] conjunct2[OF H]] fl
  show "CopyEnterprise_start w job_id ticket_id preview_reps s =
              flatbed_alert_outcome w code
                (if preview_reps = 0
                 then adf_loaded s \<noteq> Some True \<and> output_duplex s = Some True
                 else \<not> truthy adf)
                (preview_reps \<noteq> 0)
                (s1\<lparr>trace := trace s1 @
                   [Time_sleep 2.5, Start_call job_id, Waiting_log, isMediaLoaded_call]\<rparr>)"
    by simp
qed

theorem flatbed_alert_after_start_witness:
  "CopyDune_preview_start world_ready ''job_456'' ''ticket_123'' 0 flatbed_duplex_instance =
     Some (Inr (), flatbed_duplex_instance\<lparr>trace := ready_wait_calls ''job_456'' 0\<rparr>) \<and>
   respond world_ready (ready_wait_calls ''job_456'' 0 @ [Time_sleep 2.5])
     (Start_call ''job_456'') = Inr (PInt 200) \<and>
   respond world_ready
     (ready_wait_calls ''job_456'' 0 @ [Time_sleep 2.5, Start_call ''job_456'', Waiting_log])
     isMediaLoaded_call = Inr (PBool False) \<and>
   respond world_ready
     (ready_wait_calls ''job_456'' 0 @
        [Time_sleep 2.5, Start_call ''job_456'', Waiting_log, isMediaLoaded_call])
     Wait_alert_call = Inl (Exn ''TimeoutError'' ''no alert'') \<and>
   CopyEnterprise_start world_ready ''job_456'' ''ticket_123'' 0 flatbed_duplex_instance =
     Some (Inr (PInt 200),
           flatbed_duplex_instance\<lparr>trace := ready_wait_calls ''job_456'' 0 @
              [Time_sleep 2.5, Start_call ''job_456'', Waiting_log, isMediaLoaded_call,
               Wait_alert_call, No_alert_log]\<rparr>) \<and>
   CopyDune_start world_ready ''job_456'' ''ticket_123'' 0 flatbed_duplex_instance =
     Some (Inr (PInt 200),
           flatbed_duplex_instance\<lparr>trace := ready_wait_calls ''job_456'' 0 @
              [Start_call ''job_456'']\<rparr>)"
proof -
  have tr: "trace flatbed_duplex_instance = []"
    by (simp add: flatbed_duplex_instance_def Copy_init_def)
  have fl: "adf_loaded flatbed_duplex_instance = Some False"
    "output_duplex flatbed_duplex_instance = Some True"
    by (simp_all add: flatbed_duplex_instance_def Copy_init_def)
  have A: "CopyDune_preview_start world_ready ''job_456'' ''ticket_123'' 0 flatbed_duplex_instance =
     Some (Inr (), flatbed_duplex_instance\<lparr>trace := ready_wait_calls ''job_456'' 0\<rparr>)"
    by (simp add: CopyDune_preview_start_world_ready_0 tr)
  have c: "respond world_ready (ready_wait_calls ''job_456'' 0 @ [Time_sleep 2.5])
     (Start_call ''job_456'') = Inr (PInt 200)"
    by (simp add: world_ready_simps Start_call_def)
  have m: "respond world_ready
     (ready_wait_calls ''job_456'' 0 @ [Time_sleep 2.5, Start_call ''job_456'', Waiting_log])
     isMediaLoaded_call = Inr (PBool False)"
    by (simp add: world_ready_simps isMediaLoaded_call_def)
  have t: "respond world_ready
     (ready_wait_calls ''job_456'' 0 @
        [Time_sleep 2.5, Start_call ''job_456'', Waiting_log, isMediaLoaded_call])
     Wait_alert_call = Inl (Exn ''TimeoutError'' ''no alert'')"
    by (simp add: world_ready_simps Wait_alert_call_def)
  note T = flatbed_alert_after_start[OF A]
  from T have d: "CopyDune_start world_ready ''job_456'' ''ticket_123'' 0 flatbed_duplex_instance =
     Some (Inr (PInt 200),
           flatbed_duplex_instance\<lparr>trace := ready_wait_calls ''job_456'' 0 @
              [Start_call ''job_456'']\<rparr>)"
    by (simp add: world_ready_simps Start_call_def)
  from conjunct2[OF T] c m
  have "CopyEnterprise_start world_ready ''job_456'' ''ticket_123'' 0 flatbed_duplex_instance =
     flatbed_alert_outcome world_ready (PInt 200)
       (if (0::int) = 0
        then adf_loaded flatbed_duplex_instance \<noteq> Some True \<and>
             output_duplex flatbed_duplex_instance = Some True
        else \<not> truthy (PBool False))
       ((0::int) \<noteq> 0)
       (flatbed_duplex_instance\<lparr>trace := ready_wait_calls ''job_456'' 0\<rparr>
          \<lparr>trace := trace (flatbed_duplex_instance\<lparr>trace := ready_wait_calls ''job_456'' 0\<rparr>) @
             [Time_sleep 2.5, Start_call ''job_456'', Waiting_log, isMediaLoaded_call]\<rparr>)"
    by simp
  with fl t have e: "CopyEnterprise_start world_ready ''job_456'' ''ticket_123'' 0 flatbed_duplex_instance =
     Some (Inr (PInt 200),
           flatbed_duplex_instance\<lparr>trace := ready_wait_calls ''job_456'' 0 @
              [Time_sleep 2.5, Start_call ''job_456'', Waiting_log, isMediaLoaded_call,
               Wait_alert_call, No_alert_log]\<rparr>)"
    by (simp add: flatbed_alert_outcome_def)
  from A c m t e d show ?thesis by simp
qed

end
